theory Spec2Isabelle
  imports Main "HOL-Library.AList"
begin

section \<open>Values\<close>

text \<open>
  The service of \<^verbatim>\<open>app.py\<close> keeps products and orders as the Python values that
  \<^verbatim>\<open>json.loads\<close> produces, and its handlers inspect them dynamically
  (\<^verbatim>\<open>isinstance\<close>, \<^verbatim>\<open>str\<close>, \<^verbatim>\<open>float\<close>, \<^verbatim>\<open>int\<close>, truthiness).  The
  model therefore works on such values directly.  A \<^verbatim>\<open>dict\<close> is an association list in
  insertion order; looking a key up is \<open>map_of\<close>, and the assignment \<^verbatim>\<open>d[k] = v\<close> is
  \<open>AList.update\<close>, which overwrites in place or appends a new key at the end, as a
  Python dict does.  Floating point numbers are a type parameter \<open>'f\<close>.
\<close>

datatype 'f json =
    JNull
  | JBool bool
  | JInt int
  | JFloat 'f
  | JStr string
  | JList "'f json list"
  | JObj "(string \<times> 'f json) list"

text \<open>
  What the Python runtime does with floating point numbers and with the text of strings
  is not code of the service.  It is taken as a parameter: every theorem below holds for
  any such runtime.  A conversion that raises (\<^verbatim>\<open>ValueError\<close>, \<^verbatim>\<open>OverflowError\<close>)
  returns \<open>None\<close>.
\<close>

record 'f pyops =
  float_of_int :: "int \<Rightarrow> 'f option"      \<comment> \<open>\<^verbatim>\<open>float(i)\<close> of an int\<close>
  float_of_str :: "string \<Rightarrow> 'f option"   \<comment> \<open>\<^verbatim>\<open>float(s)\<close> of a string\<close>
  int_of_float :: "'f \<Rightarrow> int option"      \<comment> \<open>\<^verbatim>\<open>int(x)\<close> of a float\<close>
  int_of_str :: "string \<Rightarrow> int option"     \<comment> \<open>\<^verbatim>\<open>int(s)\<close> of a string\<close>
  float_nonzero :: "'f \<Rightarrow> bool"            \<comment> \<open>truth value of a float\<close>
  repr_of_float :: "'f \<Rightarrow> string"          \<comment> \<open>\<^verbatim>\<open>repr(x)\<close> of a float\<close>
  repr_of_str :: "string \<Rightarrow> string"        \<comment> \<open>\<^verbatim>\<open>repr(s)\<close> of a string\<close>
  strip :: "string \<Rightarrow> string"              \<comment> \<open>\<^verbatim>\<open>s.strip()\<close>\<close>

subsection \<open>Dictionaries\<close>

definition has_key :: "(string \<times> 'a) list \<Rightarrow> string \<Rightarrow> bool" where
  "has_key d k = (map_of d k \<noteq> None)"

definition get_default :: "(string \<times> 'a) list \<Rightarrow> string \<Rightarrow> 'a \<Rightarrow> 'a" where
  "get_default d k dflt = (case map_of d k of Some v \<Rightarrow> v | None \<Rightarrow> dflt)"

definition get :: "(string \<times> 'f json) list \<Rightarrow> string \<Rightarrow> 'f json" where
  "get d k = get_default d k JNull"

subsection \<open>\<^verbatim>\<open>str\<close>, truthiness, \<^verbatim>\<open>float\<close> and \<^verbatim>\<open>int\<close>\<close>

function digits :: "nat \<Rightarrow> string" where
  "digits n = (if n < 10 then [''0123456789'' ! n]
               else digits (n div 10) @ [''0123456789'' ! (n mod 10)])"
  by pat_completeness auto
termination
  by (relation "measure id") auto

declare digits.simps [simp del]

definition str_of_int :: "int \<Rightarrow> string" where
  "str_of_int i = (if i < 0 then ''-'' @ digits (nat (- i)) else digits (nat i))"

fun join_comma :: "string list \<Rightarrow> string" where
  "join_comma [] = ''''"
| "join_comma [s] = s"
| "join_comma (s # t # ss) = s @ '', '' @ join_comma (t # ss)"

primrec repr_of :: "'f pyops \<Rightarrow> 'f json \<Rightarrow> string" where
  "repr_of P JNull = ''None''"
| "repr_of P (JBool b) = (if b then ''True'' else ''False'')"
| "repr_of P (JInt i) = str_of_int i"
| "repr_of P (JFloat x) = repr_of_float P x"
| "repr_of P (JStr s) = repr_of_str P s"
| "repr_of P (JList xs) = ''['' @ join_comma (map (repr_of P) xs) @ '']''"
| "repr_of P (JObj kvs) =
     ''{'' @ join_comma (map (\<lambda>kv. repr_of_str P (fst kv) @ '': '' @ snd kv)
                          (map (map_prod id (repr_of P)) kvs)) @ ''}''"

definition str_of :: "'f pyops \<Rightarrow> 'f json \<Rightarrow> string" where
  "str_of P v = (case v of JStr s \<Rightarrow> s | _ \<Rightarrow> repr_of P v)"

fun truthy :: "'f pyops \<Rightarrow> 'f json \<Rightarrow> bool" where
  "truthy P JNull = False"
| "truthy P (JBool b) = b"
| "truthy P (JInt i) = (i \<noteq> 0)"
| "truthy P (JFloat x) = float_nonzero P x"
| "truthy P (JStr s) = (s \<noteq> [])"
| "truthy P (JList xs) = (xs \<noteq> [])"
| "truthy P (JObj kvs) = (kvs \<noteq> [])"

text \<open>
  \<^verbatim>\<open>float(v)\<close> and \<^verbatim>\<open>int(v)\<close>.  The handlers call both inside
  \<^verbatim>\<open>try: ... except Exception\<close>, so the kind of exception is not kept: \<open>None\<close> is any
  of \<^verbatim>\<open>TypeError\<close>, \<^verbatim>\<open>ValueError\<close> and \<^verbatim>\<open>OverflowError\<close>.
\<close>

fun py_float :: "'f pyops \<Rightarrow> 'f json \<Rightarrow> 'f option" where
  "py_float P (JBool b) = float_of_int P (if b then 1 else 0)"
| "py_float P (JInt i) = float_of_int P i"
| "py_float P (JFloat x) = Some x"
| "py_float P (JStr s) = float_of_str P s"
| "py_float P JNull = None"
| "py_float P (JList xs) = None"
| "py_float P (JObj kvs) = None"

fun py_int :: "'f pyops \<Rightarrow> 'f json \<Rightarrow> int option" where
  "py_int P (JBool b) = Some (if b then 1 else 0)"
| "py_int P (JInt i) = Some i"
| "py_int P (JFloat x) = int_of_float P x"
| "py_int P (JStr s) = int_of_str P s"
| "py_int P JNull = None"
| "py_int P (JList xs) = None"
| "py_int P (JObj kvs) = None"

section \<open>The document store\<close>

text \<open>
  The file at \<^verbatim>\<open>DB_PATH\<close> is absent (\<open>None\<close>) or holds a text.  Parsing text is the
  work of \<^verbatim>\<open>json.loads\<close>, so a text is represented by what the service can observe of
  it: \<open>Blank\<close> is a text that \<^verbatim>\<open>strip()\<close> empties, \<open>Malformed\<close> a non-blank text that
  \<^verbatim>\<open>json.loads\<close> rejects, and \<open>Parsed v\<close> a text that \<^verbatim>\<open>json.loads\<close> reads as \<open>v\<close>;
  \<^verbatim>\<open>json.dumps(data)\<close> writes a text that reads back as \<open>data\<close>.
\<close>

datatype 'f content = Blank | Malformed | Parsed "'f json"

type_synonym 'f db_file = "'f content option"

datatype py_error = FileNotFoundError | JSONDecodeError | TypeError | AttributeError

definition empty_db :: "(string \<times> 'f json) list" where
  "empty_db = [(''products'', JList []), (''orders'', JList [])]"

definition ensure_db_exists :: "'f db_file \<Rightarrow> 'f db_file" where
  "ensure_db_exists fs =
     (case fs of
        None \<Rightarrow> Some (Parsed (JObj empty_db))
      | Some Blank \<Rightarrow> Some (Parsed (JObj empty_db))
      | Some c \<Rightarrow> Some c)"

text \<open>\<^verbatim>\<open>json.loads(DB_PATH.read_text())\<close>\<close>

definition read_json :: "'f db_file \<Rightarrow> py_error + 'f json" where
  "read_json fs =
     (case fs of
        None \<Rightarrow> Inl FileNotFoundError
      | Some Blank \<Rightarrow> Inl JSONDecodeError
      | Some Malformed \<Rightarrow> Inl JSONDecodeError
      | Some (Parsed v) \<Rightarrow> Inr v)"

text \<open>
  One of the two repairs of \<^verbatim>\<open>load_db\<close>:
  \<^verbatim>\<open>if k not in data or not isinstance(data[k], list): data[k] = []\<close>.
\<close>

definition repair :: "string \<Rightarrow> (string \<times> 'f json) list \<Rightarrow> (string \<times> 'f json) list" where
  "repair k d = (case map_of d k of Some (JList xs) \<Rightarrow> d | _ \<Rightarrow> AList.update k (JList []) d)"

text \<open>
  \<^verbatim>\<open>load_db\<close> returns the file as \<^verbatim>\<open>ensure_db_exists\<close> left it, and the loaded
  dictionary or the exception raised.  A parsed value that is not a dict makes both
  \<^verbatim>\<open>"products" not in data\<close> followed by \<^verbatim>\<open>data["products"] = []\<close>, and
  \<^verbatim>\<open>data["products"]\<close>, raise \<^verbatim>\<open>TypeError\<close>.
\<close>

definition load_db :: "'f db_file \<Rightarrow> 'f db_file \<times> (py_error + (string \<times> 'f json) list)" where
  "load_db fs =
     (let fs1 = ensure_db_exists fs in
      case read_json fs1 of
        Inl e \<Rightarrow> (fs1, Inl e)
      | Inr (JObj d) \<Rightarrow> (fs1, Inr (repair ''orders'' (repair ''products'' d)))
      | Inr _ \<Rightarrow> (fs1, Inl TypeError))"

definition save_db :: "(string \<times> 'f json) list \<Rightarrow> 'f db_file" where
  "save_db data = Some (Parsed (JObj data))"

text \<open>\<^verbatim>\<open>data[k]\<close> for a key that \<^verbatim>\<open>load_db\<close> has made a list.\<close>

definition seq :: "(string \<times> 'f json) list \<Rightarrow> string \<Rightarrow> 'f json list" where
  "seq data k = (case map_of data k of Some (JList xs) \<Rightarrow> xs | _ \<Rightarrow> [])"

section \<open>The collection index\<close>

text \<open>
  \<^verbatim>\<open>index_by_id\<close> maps the \<^verbatim>\<open>str\<close> of each record's \<^verbatim>\<open>id\<close> to the record
  itself, not to a copy: the handlers assign through \<^verbatim>\<open>p_index[pid]\<close> to change the
  record in the list.  The reference is modelled by the position of the record in the
  list, so \<^verbatim>\<open>p_index[pid]\<close> is \<open>items ! j\<close> for the \<open>j\<close> the index gives.  The loop
  overwrites an earlier entry with the same key.
\<close>

fun index_loop :: "'f pyops \<Rightarrow> (string \<rightharpoonup> nat) \<Rightarrow> nat \<Rightarrow> 'f json list \<Rightarrow> (string \<rightharpoonup> nat)" where
  "index_loop P out i [] = out"
| "index_loop P out i (it # its) =
     index_loop P
       (case it of
          JObj d \<Rightarrow> if has_key d ''id'' then out(str_of P (get d ''id'') \<mapsto> i) else out
        | _ \<Rightarrow> out)
       (Suc i) its"

definition index_by_id :: "'f pyops \<Rightarrow> 'f json list \<Rightarrow> (string \<rightharpoonup> nat)" where
  "index_by_id P items = index_loop P Map.empty 0 items"

text \<open>\<^verbatim>\<open>index[key][k] = v\<close>: assignment to a field of the record at position \<open>j\<close>.\<close>

definition set_field :: "'f json list \<Rightarrow> nat \<Rightarrow> string \<Rightarrow> 'f json \<Rightarrow> 'f json list" where
  "set_field xs j k v =
     xs[j := (case xs ! j of JObj d \<Rightarrow> JObj (AList.update k v d) | other \<Rightarrow> other)]"

section \<open>Requests and responses\<close>

text \<open>
  A handler is a function of the parsed request body and the file; it returns the file
  it leaves and either the exception that escapes it or the pair of status code and
  JSON value it answers.  The check of the API key, which runs before a handler, is
  not part of the model.  The clock and the random UUID are read from an environment.
\<close>

type_synonym 'f response = "nat \<times> 'f json"

type_synonym 'f result = "'f db_file \<times> (py_error + 'f response)"

record env =
  now_iso :: string      \<comment> \<open>what \<^verbatim>\<open>now_iso()\<close> returns\<close>
  uuid4_hex :: string    \<comment> \<open>what \<^verbatim>\<open>uuid.uuid4().hex\<close> returns\<close>

definition get_body :: "'f json \<Rightarrow> (string \<times> 'f json) list" where
  "get_body b = (case b of JObj d \<Rightarrow> d | _ \<Rightarrow> [])"

definition bad_request :: "string \<Rightarrow> 'f response" where
  "bad_request msg = (400, JObj [(''error'', JStr ''Bad Request''), (''message'', JStr msg)])"

definition not_found :: "string \<Rightarrow> 'f response" where
  "not_found msg = (404, JObj [(''error'', JStr ''Not Found''), (''message'', JStr msg)])"

section \<open>Products\<close>

definition list_products :: "'f db_file \<Rightarrow> 'f result" where
  "list_products fs =
     (case load_db fs of
        (fs1, Inl e) \<Rightarrow> (fs1, Inl e)
      | (fs1, Inr data) \<Rightarrow> (fs1, Inr (200, JList (seq data ''products''))))"

definition create_product :: "'f pyops \<Rightarrow> env \<Rightarrow> 'f json \<Rightarrow> 'f db_file \<Rightarrow> 'f result" where
  "create_product P E request fs =
     (let body = get_body request;
          name = get body ''name'';
          price = get body ''price''
      in if \<not> truthy P name then (fs, Inr (bad_request ''Field 'name' is required''))
         else if price = JNull then (fs, Inr (bad_request ''Field 'price' is required''))
         else case py_float P price of
           None \<Rightarrow> (fs, Inr (bad_request ''Field 'price' must be a number''))
         | Some price_val \<Rightarrow>
            (case load_db fs of
               (fs1, Inl e) \<Rightarrow> (fs1, Inl e)
             | (fs1, Inr data) \<Rightarrow>
                (let products = seq data ''products'';
                     p_index = index_by_id P products;
                     pid = str_of P (if truthy P (get body ''id'') then get body ''id''
                                     else JStr (''p-'' @ take 8 (uuid4_hex E)))
                 in if p_index pid \<noteq> None
                    then (fs1, Inr (bad_request ''Product id already exists''))
                    else
                      (let product = JObj [(''id'', JStr pid),
                                           (''name'', JStr (str_of P name)),
                                           (''price'', JFloat price_val),
                                           (''createdAt'', JStr (now_iso E))];
                           data' = AList.update ''products'' (JList (products @ [product])) data
                       in (save_db data', Inr (201, product))))))"

definition get_product :: "'f pyops \<Rightarrow> string \<Rightarrow> 'f db_file \<Rightarrow> 'f result" where
  "get_product P pid fs =
     (case load_db fs of
        (fs1, Inl e) \<Rightarrow> (fs1, Inl e)
      | (fs1, Inr data) \<Rightarrow>
         (case index_by_id P (seq data ''products'') pid of
            None \<Rightarrow> (fs1, Inr (not_found ''product not found''))
          | Some j \<Rightarrow> (fs1, Inr (200, seq data ''products'' ! j))))"

text \<open>
  The loop that writes the record back:
  \<^verbatim>\<open>for i, p in enumerate(xs): if str(p.get("id")) == key: xs[i] = r; break\<close>.
  \<^verbatim>\<open>p.get\<close> raises \<^verbatim>\<open>AttributeError\<close> on an entry that is not a dict.
\<close>

fun write_back :: "'f pyops \<Rightarrow> string \<Rightarrow> 'f json \<Rightarrow> 'f json list \<Rightarrow> py_error + 'f json list" where
  "write_back P key r [] = Inr []"
| "write_back P key r (p # ps) =
     (case p of
        JObj d \<Rightarrow>
          if str_of P (get d ''id'') = key then Inr (r # ps)
          else (case write_back P key r ps of Inl e \<Rightarrow> Inl e | Inr ps' \<Rightarrow> Inr (p # ps'))
      | _ \<Rightarrow> Inl AttributeError)"

definition update_product :: "'f pyops \<Rightarrow> string \<Rightarrow> 'f json \<Rightarrow> 'f db_file \<Rightarrow> 'f result" where
  "update_product P pid request fs =
     (let body = get_body request in
      case load_db fs of
        (fs1, Inl e) \<Rightarrow> (fs1, Inl e)
      | (fs1, Inr data) \<Rightarrow>
         (let products = seq data ''products'' in
          case index_by_id P products pid of
            None \<Rightarrow> (fs1, Inr (not_found ''product not found''))
          | Some j \<Rightarrow>
             (let products1 = (if has_key body ''name''
                               then set_field products j ''name'' (JStr (str_of P (get body ''name'')))
                               else products);
                  updated = (if has_key body ''price''
                             then (case py_float P (get body ''price'') of
                                     None \<Rightarrow> Inl (bad_request ''Field 'price' must be a number'')
                                   | Some x \<Rightarrow> Inr (set_field products1 j ''price'' (JFloat x)))
                             else Inr products1)
              in case updated of
                   Inl resp \<Rightarrow> (fs1, Inr resp)
                 | Inr products2 \<Rightarrow>
                    (case write_back P pid (products2 ! j) products2 of
                       Inl e \<Rightarrow> (fs1, Inl e)
                     | Inr products3 \<Rightarrow>
                        (save_db (AList.update ''products'' (JList products3) data),
                         Inr (200, products2 ! j))))))"

text \<open>
  The comprehension \<^verbatim>\<open>[p for p in xs if str(p.get(k)) != key]\<close>; \<^verbatim>\<open>p.get\<close> raises
  \<^verbatim>\<open>AttributeError\<close> on an entry that is not a dict.
\<close>

fun without :: "'f pyops \<Rightarrow> string \<Rightarrow> string \<Rightarrow> 'f json list \<Rightarrow> py_error + 'f json list" where
  "without P k key [] = Inr []"
| "without P k key (p # ps) =
     (case p of
        JObj d \<Rightarrow>
          (case without P k key ps of
             Inl e \<Rightarrow> Inl e
           | Inr ps' \<Rightarrow> Inr (if str_of P (get d k) \<noteq> key then p # ps' else ps'))
      | _ \<Rightarrow> Inl AttributeError)"

text \<open>
  The cascade of \<^verbatim>\<open>delete_product\<close> over the orders: an order that is a dict whose
  \<^verbatim>\<open>items\<close> is a list gets the filtered list, any other entry is left as it is.
\<close>

definition prune_order :: "'f pyops \<Rightarrow> string \<Rightarrow> 'f json \<Rightarrow> py_error + 'f json" where
  "prune_order P pid ord =
     (case ord of
        JObj d \<Rightarrow>
          (case map_of d ''items'' of
             Some (JList its) \<Rightarrow>
               (case without P ''productId'' pid its of
                  Inl e \<Rightarrow> Inl e
                | Inr its' \<Rightarrow> Inr (JObj (AList.update ''items'' (JList its') d)))
           | _ \<Rightarrow> Inr ord)
      | _ \<Rightarrow> Inr ord)"

fun prune_orders :: "'f pyops \<Rightarrow> string \<Rightarrow> 'f json list \<Rightarrow> py_error + 'f json list" where
  "prune_orders P pid [] = Inr []"
| "prune_orders P pid (ord # ords) =
     (case prune_order P pid ord of
        Inl e \<Rightarrow> Inl e
      | Inr ord' \<Rightarrow>
         (case prune_orders P pid ords of Inl e \<Rightarrow> Inl e | Inr ords' \<Rightarrow> Inr (ord' # ords')))"

definition delete_product :: "'f pyops \<Rightarrow> string \<Rightarrow> 'f db_file \<Rightarrow> 'f result" where
  "delete_product P pid fs =
     (case load_db fs of
        (fs1, Inl e) \<Rightarrow> (fs1, Inl e)
      | (fs1, Inr data) \<Rightarrow>
         (let products = seq data ''products'';
              orders = seq data ''orders''
          in case without P ''id'' pid products of
               Inl e \<Rightarrow> (fs1, Inl e)
             | Inr products' \<Rightarrow>
                if length products' = length products
                then (fs1, Inr (not_found ''product not found''))
                else (case prune_orders P pid orders of
                        Inl e \<Rightarrow> (fs1, Inl e)
                      | Inr orders' \<Rightarrow>
                         (save_db (AList.update ''orders'' (JList orders')
                                     (AList.update ''products'' (JList products') data)),
                          Inr (200, JObj [(''deleted'', JStr pid)])))))"

section \<open>Orders\<close>

definition list_orders :: "'f db_file \<Rightarrow> 'f result" where
  "list_orders fs =
     (case load_db fs of
        (fs1, Inl e) \<Rightarrow> (fs1, Inl e)
      | (fs1, Inr data) \<Rightarrow> (fs1, Inr (200, JList (seq data ''orders''))))"

text \<open>
  The validation loop over the items of a request, which \<^verbatim>\<open>create_order\<close> and
  \<^verbatim>\<open>update_order\<close> both contain, statement for statement.  \<open>acc\<close> is the list of
  normalised items built so far; the first item that fails ends the loop with the
  response of the handler.
\<close>

fun validate_items ::
  "'f pyops \<Rightarrow> (string \<rightharpoonup> nat) \<Rightarrow> 'f json list \<Rightarrow> 'f json list \<Rightarrow> 'f response + 'f json list" where
  "validate_items P products_index acc [] = Inr acc"
| "validate_items P products_index acc (it # its) =
     (case it of
        JObj d \<Rightarrow>
          (let product_id = strip P (str_of P (get_default d ''productId'' (JStr [])));
               qty = get d ''qty''
           in if product_id = [] then Inl (bad_request ''Each item must include productId'')
              else if products_index product_id = None
              then Inl (bad_request (''productId does not exist: '' @ product_id))
              else (case py_int P qty of
                      None \<Rightarrow> Inl (bad_request ''qty must be an integer'')
                    | Some qty_val \<Rightarrow>
                       if qty_val \<le> 0 then Inl (bad_request ''qty must be a positive integer'')
                       else validate_items P products_index
                              (acc @ [JObj [(''productId'', JStr product_id), (''qty'', JInt qty_val)]])
                              its))
      | _ \<Rightarrow> Inl (bad_request ''Each item must be an object with productId and qty''))"

definition create_order :: "'f pyops \<Rightarrow> env \<Rightarrow> 'f json \<Rightarrow> 'f db_file \<Rightarrow> 'f result" where
  "create_order P E request fs =
     (let body = get_body request;
          customer = get body ''customer'';
          status = get_default body ''status'' (JStr ''NEW'')
      in if \<not> truthy P customer then (fs, Inr (bad_request ''Field 'customer' is required''))
         else case get body ''items'' of
           JList (i # is) \<Rightarrow>
            (case load_db fs of
               (fs1, Inl e) \<Rightarrow> (fs1, Inl e)
             | (fs1, Inr data) \<Rightarrow>
                (let products_index = index_by_id P (seq data ''products'');
                     orders = seq data ''orders'';
                     o_index = index_by_id P orders
                 in case validate_items P products_index [] (i # is) of
                      Inl resp \<Rightarrow> (fs1, Inr resp)
                    | Inr normalized_items \<Rightarrow>
                       (let oid = str_of P (if truthy P (get body ''id'') then get body ''id''
                                            else JStr (''o-'' @ take 8 (uuid4_hex E)))
                        in if o_index oid \<noteq> None
                           then (fs1, Inr (bad_request ''Order id already exists''))
                           else
                             (let order = JObj [(''id'', JStr oid),
                                                (''customer'', JStr (str_of P customer)),
                                                (''items'', JList normalized_items),
                                                (''status'', JStr (str_of P status)),
                                                (''createdAt'', JStr (now_iso E))];
                                  data' = AList.update ''orders'' (JList (orders @ [order])) data
                              in (save_db data', Inr (201, order))))))
         | _ \<Rightarrow> (fs, Inr (bad_request ''Field 'items' must be a non-empty list'')))"

definition get_order :: "'f pyops \<Rightarrow> string \<Rightarrow> 'f db_file \<Rightarrow> 'f result" where
  "get_order P oid fs =
     (case load_db fs of
        (fs1, Inl e) \<Rightarrow> (fs1, Inl e)
      | (fs1, Inr data) \<Rightarrow>
         (case index_by_id P (seq data ''orders'') oid of
            None \<Rightarrow> (fs1, Inr (not_found ''order not found''))
          | Some j \<Rightarrow> (fs1, Inr (200, seq data ''orders'' ! j))))"

definition update_order :: "'f pyops \<Rightarrow> string \<Rightarrow> 'f json \<Rightarrow> 'f db_file \<Rightarrow> 'f result" where
  "update_order P oid request fs =
     (let body = get_body request in
      case load_db fs of
        (fs1, Inl e) \<Rightarrow> (fs1, Inl e)
      | (fs1, Inr data) \<Rightarrow>
         (let orders = seq data ''orders'' in
          case index_by_id P orders oid of
            None \<Rightarrow> (fs1, Inr (not_found ''order not found''))
          | Some j \<Rightarrow>
             (let orders1 = (if has_key body ''status''
                             then set_field orders j ''status'' (JStr (str_of P (get body ''status'')))
                             else orders);
                  orders2 = (if has_key body ''customer''
                             then set_field orders1 j ''customer'' (JStr (str_of P (get body ''customer'')))
                             else orders1);
                  updated = (if has_key body ''items''
                             then (case get body ''items'' of
                                     JList (i # is) \<Rightarrow>
                                       (case validate_items P (index_by_id P (seq data ''products'')) []
                                               (i # is) of
                                          Inl resp \<Rightarrow> Inl resp
                                        | Inr new_items \<Rightarrow>
                                            Inr (set_field orders2 j ''items'' (JList new_items)))
                                   | _ \<Rightarrow> Inl (bad_request ''items must be a non-empty list''))
                             else Inr orders2)
              in case updated of
                   Inl resp \<Rightarrow> (fs1, Inr resp)
                 | Inr orders3 \<Rightarrow>
                    (case write_back P oid (orders3 ! j) orders3 of
                       Inl e \<Rightarrow> (fs1, Inl e)
                     | Inr orders4 \<Rightarrow>
                        (save_db (AList.update ''orders'' (JList orders4) data),
                         Inr (200, orders3 ! j))))))"

definition delete_order :: "'f pyops \<Rightarrow> string \<Rightarrow> 'f db_file \<Rightarrow> 'f result" where
  "delete_order P oid fs =
     (case load_db fs of
        (fs1, Inl e) \<Rightarrow> (fs1, Inl e)
      | (fs1, Inr data) \<Rightarrow>
         (let orders = seq data ''orders'' in
          case without P ''id'' oid orders of
            Inl e \<Rightarrow> (fs1, Inl e)
          | Inr orders' \<Rightarrow>
             if length orders' = length orders
             then (fs1, Inr (not_found ''order not found''))
             else (save_db (AList.update ''orders'' (JList orders') data),
                   Inr (200, JObj [(''deleted'', JStr oid)]))))"

section \<open>Sequences of reads\<close>

datatype get_op = ListProducts | GetProduct string | ListOrders | GetOrder string

fun run_get :: "'f pyops \<Rightarrow> get_op \<Rightarrow> 'f db_file \<Rightarrow> 'f result" where
  "run_get P ListProducts fs = list_products fs"
| "run_get P (GetProduct pid) fs = get_product P pid fs"
| "run_get P ListOrders fs = list_orders fs"
| "run_get P (GetOrder oid) fs = get_order P oid fs"

text \<open>The file that a sequence of reads leaves, each request served after the other.\<close>

fun run_gets :: "'f pyops \<Rightarrow> get_op list \<Rightarrow> 'f db_file \<Rightarrow> 'f db_file" where
  "run_gets P [] fs = fs"
| "run_gets P (g # gs) fs = run_gets P gs (fst (run_get P g fs))"

section \<open>Writes\<close>

text \<open>The six routes that change the document, as the requests that reach them.\<close>

datatype 'f write_op =
    CreateProduct "'f json"
  | UpdateProduct string "'f json"
  | DeleteProduct string
  | CreateOrder "'f json"
  | UpdateOrder string "'f json"
  | DeleteOrder string

fun run_write :: "'f pyops \<Rightarrow> env \<Rightarrow> 'f write_op \<Rightarrow> 'f db_file \<Rightarrow> 'f result" where
  "run_write P E (CreateProduct request) fs = create_product P E request fs"
| "run_write P E (UpdateProduct pid request) fs = update_product P pid request fs"
| "run_write P E (DeleteProduct pid) fs = delete_product P pid fs"
| "run_write P E (CreateOrder request) fs = create_order P E request fs"
| "run_write P E (UpdateOrder oid request) fs = update_order P oid request fs"
| "run_write P E (DeleteOrder oid) fs = delete_order P oid fs"

section \<open>Notions used to state the properties\<close>

text \<open>The records that \<^verbatim>\<open>index_by_id\<close> enters under \<open>key\<close>.\<close>

definition indexed :: "'f pyops \<Rightarrow> string \<Rightarrow> 'f json \<Rightarrow> bool" where
  "indexed P key it =
     (case it of JObj d \<Rightarrow> has_key d ''id'' \<and> str_of P (get d ''id'') = key | _ \<Rightarrow> False)"

text \<open>
  The rule for one item of an order as the specification words it: an object that
  contains a \<^verbatim>\<open>productId\<close> which is not empty once stripped and is a key of the
  product index, and a \<^verbatim>\<open>qty\<close> that parses as an integer greater than zero.
\<close>

definition spec_item_ok :: "'f pyops \<Rightarrow> (string \<rightharpoonup> nat) \<Rightarrow> 'f json \<Rightarrow> bool" where
  "spec_item_ok P products_index it =
     (case it of
        JObj d \<Rightarrow>
          has_key d ''productId'' \<and>
          strip P (str_of P (get d ''productId'')) \<noteq> [] \<and>
          products_index (strip P (str_of P (get d ''productId''))) \<noteq> None \<and>
          (case py_int P (get d ''qty'') of Some q \<Rightarrow> 0 < q | None \<Rightarrow> False)
      | _ \<Rightarrow> False)"

text \<open>The item that the validation loop stores for an accepted item.\<close>

definition normalized :: "'f pyops \<Rightarrow> 'f json \<Rightarrow> 'f json" where
  "normalized P it =
     (case it of
        JObj d \<Rightarrow>
          JObj [(''productId'', JStr (strip P (str_of P (get_default d ''productId'' (JStr []))))),
                (''qty'', JInt (case py_int P (get d ''qty'') of Some q \<Rightarrow> q | None \<Rightarrow> 0))]
      | _ \<Rightarrow> it)"

definition is_hex :: "string \<Rightarrow> bool" where
  "is_hex s = (\<forall>c \<in> set s. c \<in> set ''0123456789abcdef'')"

text \<open>
  The id that \<^verbatim>\<open>create_product\<close> (prefix \<^verbatim>\<open>p-\<close>) and \<^verbatim>\<open>create_order\<close> (prefix
  \<^verbatim>\<open>o-\<close>) give the new record, and the records they build.
\<close>

definition chosen_id :: "'f pyops \<Rightarrow> env \<Rightarrow> string \<Rightarrow> (string \<times> 'f json) list \<Rightarrow> string" where
  "chosen_id P E prefix body =
     str_of P (if truthy P (get body ''id'') then get body ''id''
               else JStr (prefix @ take 8 (uuid4_hex E)))"

definition new_product :: "'f pyops \<Rightarrow> env \<Rightarrow> (string \<times> 'f json) list \<Rightarrow> 'f \<Rightarrow> 'f json" where
  "new_product P E body price_val =
     JObj [(''id'', JStr (chosen_id P E ''p-'' body)),
           (''name'', JStr (str_of P (get body ''name''))),
           (''price'', JFloat price_val),
           (''createdAt'', JStr (now_iso E))]"

definition new_order :: "'f pyops \<Rightarrow> env \<Rightarrow> (string \<times> 'f json) list \<Rightarrow> 'f json list \<Rightarrow> 'f json" where
  "new_order P E body normalized_items =
     JObj [(''id'', JStr (chosen_id P E ''o-'' body)),
           (''customer'', JStr (str_of P (get body ''customer''))),
           (''items'', JList normalized_items),
           (''status'', JStr (str_of P (get_default body ''status'' (JStr ''NEW'')))),
           (''createdAt'', JStr (now_iso E))]"

text \<open>
  The assignments to the fields of the record at position \<open>j\<close> that
  \<^verbatim>\<open>update_product\<close> and \<^verbatim>\<open>update_order\<close> make before they write the record back:
  the list with the record changed, or the 400 response that ends the request.
\<close>

definition product_fields ::
  "'f pyops \<Rightarrow> (string \<times> 'f json) list \<Rightarrow> 'f json list \<Rightarrow> nat \<Rightarrow> 'f response + 'f json list" where
  "product_fields P body products j =
     (let products1 = (if has_key body ''name''
                       then set_field products j ''name'' (JStr (str_of P (get body ''name'')))
                       else products)
      in if has_key body ''price''
         then (case py_float P (get body ''price'') of
                 None \<Rightarrow> Inl (bad_request ''Field 'price' must be a number'')
               | Some x \<Rightarrow> Inr (set_field products1 j ''price'' (JFloat x)))
         else Inr products1)"

definition order_fields ::
  "'f pyops \<Rightarrow> (string \<times> 'f json) list \<Rightarrow> (string \<times> 'f json) list \<Rightarrow> nat \<Rightarrow>
     'f response + 'f json list" where
  "order_fields P body data j =
     (let orders = seq data ''orders'';
          orders1 = (if has_key body ''status''
                     then set_field orders j ''status'' (JStr (str_of P (get body ''status'')))
                     else orders);
          orders2 = (if has_key body ''customer''
                     then set_field orders1 j ''customer'' (JStr (str_of P (get body ''customer'')))
                     else orders1)
      in if has_key body ''items''
         then (case get body ''items'' of
                 JList (i # is) \<Rightarrow>
                   (case validate_items P (index_by_id P (seq data ''products'')) [] (i # is) of
                      Inl resp \<Rightarrow> Inl resp
                    | Inr new_items \<Rightarrow> Inr (set_field orders2 j ''items'' (JList new_items)))
               | _ \<Rightarrow> Inl (bad_request ''items must be a non-empty list''))
         else Inr orders2)"

section \<open>A runtime for examples\<close>

text \<open>
  To evaluate the handlers on concrete requests the parameters need values.  In this
  runtime a float is a whole number, \<^verbatim>\<open>int\<close> and \<^verbatim>\<open>float\<close> read strings of decimal
  digits, and \<^verbatim>\<open>strip\<close> removes blanks.  It is used in examples only.
\<close>

fun read_digits :: "nat \<Rightarrow> string \<Rightarrow> nat option" where
  "read_digits n [] = Some n"
| "read_digits n (c # cs) =
     (case map_of [(CHR ''0'', 0), (CHR ''1'', 1), (CHR ''2'', 2), (CHR ''3'', 3), (CHR ''4'', 4),
                   (CHR ''5'', 5), (CHR ''6'', 6), (CHR ''7'', 7), (CHR ''8'', 8), (CHR ''9'', 9)] c of
        None \<Rightarrow> None
      | Some v \<Rightarrow> read_digits (10 * n + v) cs)"

definition read_int :: "string \<Rightarrow> int option" where
  "read_int s = (if s = [] then None else map_option int (read_digits 0 s))"

definition strip_blanks :: "string \<Rightarrow> string" where
  "strip_blanks s = rev (dropWhile (\<lambda>c. c = CHR '' '') (rev (dropWhile (\<lambda>c. c = CHR '' '') s)))"

definition example_ops :: "int pyops" where
  "example_ops =
     \<lparr> float_of_int = Some,
       float_of_str = read_int,
       int_of_float = Some,
       int_of_str = read_int,
       float_nonzero = (\<lambda>x. x \<noteq> 0),
       repr_of_float = (\<lambda>x. str_of_int x @ ''.0''),
       repr_of_str = (\<lambda>s. [CHR 0x27] @ s @ [CHR 0x27]),
       strip = strip_blanks \<rparr>"

definition example_env :: env where
  "example_env = \<lparr> now_iso = ''2024-01-01T00:00:00Z'', uuid4_hex = ''0123456789abcdef0123456789abcdef'' \<rparr>"

text \<open>A document with one product and one order of that product.\<close>

definition example_product :: "int json" where
  "example_product =
     JObj [(''id'', JStr ''p1''), (''name'', JStr ''Notebook''), (''price'', JFloat 12),
           (''createdAt'', JStr ''2023-12-31T00:00:00Z'')]"

definition example_order :: "int json" where
  "example_order =
     JObj [(''id'', JStr ''o1''), (''customer'', JStr ''Fatima''),
           (''items'', JList [JObj [(''productId'', JStr ''p1''), (''qty'', JInt 2)]]),
           (''status'', JStr ''NEW''), (''createdAt'', JStr ''2023-12-31T00:00:01Z'')]"

definition example_db :: "int db_file" where
  "example_db =
     Some (Parsed (JObj [(''products'', JList [example_product]),
                         (''orders'', JList [example_order])]))"

section \<open>Facts about the store\<close>

lemma ensure_db_exists_idem: "ensure_db_exists (ensure_db_exists fs) = ensure_db_exists fs"
  by (simp add: ensure_db_exists_def split: option.splits content.splits)

lemma load_db_None: "load_db None = (Some (Parsed (JObj empty_db)), Inr empty_db)"
  by (simp add: load_db_def ensure_db_exists_def read_json_def repair_def empty_db_def)

lemma load_db_Blank: "load_db (Some Blank) = (Some (Parsed (JObj empty_db)), Inr empty_db)"
  by (simp add: load_db_def ensure_db_exists_def read_json_def repair_def empty_db_def)

lemma load_db_Malformed: "load_db (Some Malformed) = (Some Malformed, Inl JSONDecodeError)"
  by (simp add: load_db_def ensure_db_exists_def read_json_def)

lemma load_db_Parsed:
  "load_db (Some (Parsed v)) =
     (Some (Parsed v),
      case v of JObj d \<Rightarrow> Inr (repair ''orders'' (repair ''products'' d)) | _ \<Rightarrow> Inl TypeError)"
  by (cases v) (simp_all add: load_db_def ensure_db_exists_def read_json_def)

lemma db_file_cases:
  obtains "fs = None" | "fs = Some Blank" | "fs = Some Malformed" | v where "fs = Some (Parsed v)"
proof (cases fs)
  case None
  then show ?thesis using that by blast
next
  case (Some c)
  then show ?thesis using that by (cases c) auto
qed

lemma load_db_fst: "fst (load_db fs) = ensure_db_exists fs"
  by (cases fs rule: db_file_cases)
     (simp_all add: load_db_None load_db_Blank load_db_Malformed load_db_Parsed ensure_db_exists_def)

lemma map_of_repair:
  "map_of (repair k d) k' =
     (if k' = k then (case map_of d k of Some (JList xs) \<Rightarrow> Some (JList xs) | _ \<Rightarrow> Some (JList []))
      else map_of d k')"
  by (simp add: repair_def update_conv' split: option.splits json.splits)

lemma repair_id: "map_of d k = Some (JList xs) \<Longrightarrow> repair k d = d"
  by (simp add: repair_def)

lemma repaired_sequences:
  "\<exists>ps os. map_of (repair ''orders'' (repair ''products'' d)) ''products'' = Some (JList ps) \<and>
           map_of (repair ''orders'' (repair ''products'' d)) ''orders'' = Some (JList os)"
  by (simp add: map_of_repair split: option.split json.split)

lemma load_db_sequences:
  assumes "load_db fs = (fs1, Inr data)"
  shows "\<exists>ps os. map_of data ''products'' = Some (JList ps) \<and> map_of data ''orders'' = Some (JList os)"
proof (cases fs rule: db_file_cases)
  case (4 v)
  with assms obtain d where "v = JObj d" "data = repair ''orders'' (repair ''products'' d)"
    by (cases v) (simp_all add: load_db_Parsed)
  then show ?thesis using repaired_sequences[of d] by simp
qed (use assms in \<open>auto simp: load_db_None load_db_Blank load_db_Malformed empty_db_def\<close>)

lemma load_db_error_unchanged:
  assumes "load_db fs = (fs1, Inl e)"
  shows "fs1 = fs"
  using assms
  by (cases fs rule: db_file_cases)
     (simp_all add: load_db_None load_db_Blank load_db_Malformed load_db_Parsed)

lemma load_db_idem:
  "load_db (fst (load_db fs)) = load_db fs"
proof (cases fs rule: db_file_cases)
  case 1
  then show ?thesis
    by (simp add: load_db_None load_db_Parsed repair_def empty_db_def)
next
  case 2
  then show ?thesis
    by (simp add: load_db_Blank load_db_Parsed repair_def empty_db_def)
qed (simp_all add: load_db_Malformed load_db_Parsed)

lemma load_db_fresh:
  assumes "fs = None \<or> fs = Some Blank"
  shows "load_db fs = (Some (Parsed (JObj empty_db)), Inr empty_db)"
  using assms by (auto simp: load_db_None load_db_Blank)

lemma seq_empty_db: "seq empty_db k = []"
  by (simp add: seq_def empty_db_def)

lemma load_db_nonempty_unchanged:
  assumes "load_db fs = (fs1, Inr data)" "seq data k \<noteq> []"
  shows "fs1 = fs"
  using assms
  by (cases fs rule: db_file_cases)
     (auto simp: load_db_None load_db_Blank load_db_Malformed load_db_Parsed seq_empty_db)

lemma load_db_save_db:
  assumes "map_of data ''products'' = Some (JList ps)" "map_of data ''orders'' = Some (JList os)"
  shows "load_db (save_db data) = (save_db data, Inr data)"
  using assms
  by (simp add: save_db_def load_db_Parsed repair_id)

section \<open>Facts about the index and the write-back loop\<close>

lemma index_loop_snoc:
  "index_loop P out i (xs @ [x]) =
     (case x of
        JObj d \<Rightarrow> if has_key d ''id''
                  then (index_loop P out i xs)(str_of P (get d ''id'') \<mapsto> i + length xs)
                  else index_loop P out i xs
      | _ \<Rightarrow> index_loop P out i xs)"
  by (induction xs arbitrary: out i) (auto split: json.splits)

lemma index_by_id_Nil: "index_by_id P [] key = None"
  by (simp add: index_by_id_def)

lemma index_by_id_snoc:
  "index_by_id P (xs @ [x]) key =
     (if indexed P key x then Some (length xs) else index_by_id P xs key)"
  by (simp add: index_by_id_def index_loop_snoc indexed_def split: json.splits)

lemma index_by_id_Some_iff:
  "index_by_id P xs key = Some j \<longleftrightarrow>
     j < length xs \<and> indexed P key (xs ! j) \<and>
     (\<forall>m. j < m \<and> m < length xs \<longrightarrow> \<not> indexed P key (xs ! m))"
proof (induction xs arbitrary: j rule: rev_induct)
  case Nil
  show ?case by (simp add: index_by_id_Nil)
next
  case (snoc x xs)
  show ?case
  proof (cases "indexed P key x")
    case True
    have "j = length xs" if "j < Suc (length xs)" "\<forall>m. j < m \<and> m < Suc (length xs) \<longrightarrow> \<not> indexed P key ((xs @ [x]) ! m)"
    proof (rule ccontr)
      assume "j \<noteq> length xs"
      with that have "j < length xs" by simp
      with that(2) have "\<not> indexed P key ((xs @ [x]) ! length xs)" by blast
      with True show False by simp
    qed
    with True show ?thesis
      by (auto simp: index_by_id_snoc)
  next
    case False
    have *: "(\<forall>m. j < m \<and> m < Suc (length xs) \<longrightarrow> \<not> indexed P key ((xs @ [x]) ! m)) \<longleftrightarrow>
          (\<forall>m. j < m \<and> m < length xs \<longrightarrow> \<not> indexed P key (xs ! m))" if "j < length xs"
      using False by (auto simp: nth_append less_Suc_eq)
    show ?thesis
    proof (cases "j < length xs")
      case True
      with False * show ?thesis
        by (simp add: index_by_id_snoc snoc.IH nth_append)
    next
      case False
      note nl = this
      show ?thesis
      proof (cases "j = length xs")
        case True
        with \<open>\<not> indexed P key x\<close> show ?thesis
          by (simp add: index_by_id_snoc snoc.IH)
      next
        case False
        with nl show ?thesis using \<open>\<not> indexed P key x\<close>
          by (simp add: index_by_id_snoc snoc.IH)
      qed
    qed
  qed
qed

lemma index_by_id_None_iff:
  "index_by_id P xs key = None \<longleftrightarrow> (\<forall>x \<in> set xs. \<not> indexed P key x)"
  by (induction xs rule: rev_induct) (auto simp: index_by_id_Nil index_by_id_snoc)

lemma write_back_length:
  "write_back P key r xs = Inr ys \<Longrightarrow> length ys = length xs"
  by (induction xs arbitrary: ys) (auto split: json.splits if_splits sum.splits)

lemma write_back_first:
  assumes "write_back P key r xs = Inr ys" "j < length xs" "xs ! j = JObj d"
    "str_of P (get d ''id'') = key"
  shows "\<exists>i\<le>j. ys = xs[i := r]"
  using assms
proof (induction xs arbitrary: ys j)
  case Nil
  then show ?case by simp
next
  case (Cons x xs)
  show ?case
  proof (cases j)
    case 0
    with Cons.prems show ?thesis by (auto split: json.splits if_splits sum.splits)
  next
    case (Suc n)
    from Cons.prems obtain dx where x: "x = JObj dx" by (auto split: json.splits)
    show ?thesis
    proof (cases "str_of P (get dx ''id'') = key")
      case True
      with Cons.prems x have "ys = (x # xs)[0 := r]" by simp
      then show ?thesis by blast
    next
      case False
      with Cons.prems x obtain ys' where w: "write_back P key r xs = Inr ys'" and ys: "ys = x # ys'"
        by (auto split: sum.splits)
      from Cons.IH[OF w, of n] Cons.prems Suc obtain i where "i \<le> n" "ys' = xs[i := r]"
        by auto
      with ys Suc have "Suc i \<le> j \<and> ys = (x # xs)[Suc i := r]" by simp
      then show ?thesis by blast
    qed
  qed
qed

lemma run_get_fst: "fst (run_get P g fs) = ensure_db_exists fs"
proof -
  obtain fs1 r where l: "load_db fs = (fs1, r)" by (cases "load_db fs")
  with load_db_fst[of fs] have "fs1 = ensure_db_exists fs" by simp
  with l show ?thesis
    by (cases g; cases r)
       (simp_all add: list_products_def get_product_def list_orders_def get_order_def
          split: option.splits)
qed

lemma load_db_ensure: "snd (load_db (ensure_db_exists fs)) = snd (load_db fs)"
  using load_db_idem[of fs] by (simp add: load_db_fst)

lemma run_gets_Cons: "run_gets P (g # gs) fs = ensure_db_exists fs"
proof (induction gs arbitrary: g fs)
  case Nil
  show ?case by (simp add: run_get_fst)
next
  case (Cons h gs)
  have "run_gets P (g # h # gs) fs = run_gets P (h # gs) (ensure_db_exists fs)"
    by (simp add: run_get_fst)
  also have "\<dots> = ensure_db_exists (ensure_db_exists fs)" by (rule Cons.IH)
  finally show ?case by (simp add: ensure_db_exists_idem)
qed

lemma without_filter:
  assumes "without P k key xs = Inr ys"
  shows "ys = filter (\<lambda>p. \<forall>d. p = JObj d \<longrightarrow> str_of P (get d k) \<noteq> key) xs \<and>
         (\<forall>x \<in> set xs. \<exists>d. x = JObj d)"
  using assms
  by (induction xs arbitrary: ys) (auto split: json.splits sum.splits)

lemma without_kept:
  assumes "without P k key xs = Inr ys" "y \<in> set ys"
  shows "\<exists>d. y = JObj d \<and> str_of P (get d k) \<noteq> key"
  using without_filter[OF assms(1)] assms(2) by auto

lemma without_all_dropped:
  assumes "without P k key xs = Inr ys" "\<forall>x \<in> set xs. \<exists>d. x = JObj d \<and> str_of P (get d k) = key"
  shows "ys = []"
  using without_filter[OF assms(1)] assms(2) by (auto simp: filter_empty_conv)

lemma prune_order_items:
  assumes "prune_order P pid ord = Inr ord'" "ord' = JObj d'" "map_of d' ''items'' = Some (JList its')"
    "it \<in> set its'"
  shows "\<exists>e. it = JObj e \<and> str_of P (get e ''productId'') \<noteq> pid"
proof (cases "\<exists>d its. ord = JObj d \<and> map_of d ''items'' = Some (JList its)")
  case True
  then obtain d its where o: "ord = JObj d" "map_of d ''items'' = Some (JList its)" by blast
  with assms(1) obtain its2 where w: "without P ''productId'' pid its = Inr its2"
    and o': "ord' = JObj (AList.update ''items'' (JList its2) d)"
    by (auto simp: prune_order_def split: sum.splits)
  from o' assms(2,3) have "its' = its2" by (simp add: update_conv')
  with w assms(4) show ?thesis by (auto dest: without_kept)
next
  case False
  with assms(1) have "ord' = ord"
    by (auto simp: prune_order_def split: json.splits option.splits)
  with False assms(2,3) show ?thesis by simp
qed

lemma prune_order_emptied:
  assumes "prune_order P pid (JObj d) = Inr ord'" "map_of d ''items'' = Some (JList its)"
    "\<forall>it \<in> set its. \<exists>e. it = JObj e \<and> str_of P (get e ''productId'') = pid"
  shows "\<exists>d'. ord' = JObj d' \<and> map_of d' ''items'' = Some (JList [])"
proof -
  from assms(1,2) obtain its2 where w: "without P ''productId'' pid its = Inr its2"
    and o': "ord' = JObj (AList.update ''items'' (JList its2) d)"
    by (auto simp: prune_order_def split: sum.splits)
  from without_all_dropped[OF w assms(3)] o' show ?thesis by (simp add: update_conv')
qed

lemma prune_orders_nth:
  assumes "prune_orders P pid ords = Inr ords'"
  shows "length ords' = length ords \<and> (\<forall>j < length ords. prune_order P pid (ords ! j) = Inr (ords' ! j))"
  using assms
proof (induction ords arbitrary: ords')
  case Nil
  then show ?case by simp
next
  case (Cons a ords)
  from Cons.prems obtain a' r where a: "prune_order P pid a = Inr a'"
    and r: "prune_orders P pid ords = Inr r" and e: "ords' = a' # r"
    by (auto split: sum.splits)
  from Cons.IH[OF r] a e show ?case by (auto simp: nth_Cons split: nat.splits)
qed

lemma delete_product_ok:
  assumes "delete_product P pid fs = (fs', Inr (200, body))"
  shows "\<exists>data ps' os'.
           load_db fs = (fs, Inr data) \<and>
           without P ''id'' pid (seq data ''products'') = Inr ps' \<and>
           prune_orders P pid (seq data ''orders'') = Inr os' \<and>
           fs' = save_db (AList.update ''orders'' (JList os')
                           (AList.update ''products'' (JList ps') data)) \<and>
           body = JObj [(''deleted'', JStr pid)]"
proof -
  obtain fs1 r where l: "load_db fs = (fs1, r)" by (cases "load_db fs")
  with assms obtain data where r: "r = Inr data"
    by (cases r) (auto simp: delete_product_def)
  from assms l r obtain ps' where w: "without P ''id'' pid (seq data ''products'') = Inr ps'"
    by (cases "without P ''id'' pid (seq data ''products'')") (auto simp: delete_product_def Let_def)
  from assms l r w have len: "length ps' \<noteq> length (seq data ''products'')"
    by (auto simp: delete_product_def Let_def not_found_def split: if_splits)
  with assms l r w obtain os' where p: "prune_orders P pid (seq data ''orders'') = Inr os'"
    by (cases "prune_orders P pid (seq data ''orders'')") (auto simp: delete_product_def Let_def)
  from len have "seq data ''products'' \<noteq> []"
    using w by auto
  with l r have "fs1 = fs" by (auto dest: load_db_nonempty_unchanged)
  with assms l r w len p show ?thesis
    by (auto simp: delete_product_def Let_def)
qed

lemma digits_nonempty: "digits n \<noteq> []"
  by (subst digits.simps) simp

lemma str_of_truthy_nonempty:
  assumes "truthy P v" "\<forall>x. repr_of_float P x \<noteq> []"
  shows "str_of P v \<noteq> []"
  using assms by (cases v) (auto simp: str_of_def str_of_int_def digits_nonempty)

lemma str_of_JStr: "str_of P (JStr s) = s"
  by (simp add: str_of_def)

lemma seq_update_same: "seq (AList.update k (JList xs) d) k = xs"
  by (simp add: seq_def update_conv')

lemma seq_update_other: "k' \<noteq> k \<Longrightarrow> seq (AList.update k v d) k' = seq d k'"
  by (simp add: seq_def update_conv')

lemma load_db_after_save:
  assumes "load_db fs = (fs1, Inr data)" "k = ''products'' \<or> k = ''orders''"
  shows "load_db (save_db (AList.update k (JList xs) data)) =
           (save_db (AList.update k (JList xs) data), Inr (AList.update k (JList xs) data))"
proof -
  from load_db_sequences[OF assms(1)] obtain ps os where
    "map_of data ''products'' = Some (JList ps)" "map_of data ''orders'' = Some (JList os)"
    by blast
  with assms(2) have "\<exists>ps' os'. map_of (AList.update k (JList xs) data) ''products'' = Some (JList ps') \<and>
      map_of (AList.update k (JList xs) data) ''orders'' = Some (JList os')"
    by (auto simp: update_conv')
  then show ?thesis by (auto intro: load_db_save_db)
qed

lemma index_nonempty_unchanged:
  assumes "load_db fs = (fs1, Inr data)" "index_by_id P (seq data k) key \<noteq> None"
  shows "fs1 = fs"
proof -
  from assms(2) have "seq data k \<noteq> []" by (auto simp: index_by_id_Nil)
  with assms(1) show ?thesis by (rule load_db_nonempty_unchanged)
qed

subsection \<open>Creating a product\<close>

lemma create_product_run:
  assumes "load_db fs = (fs1, Inr data)"
    "truthy P (get (get_body request) ''name'')"
    "py_float P (get (get_body request) ''price'') = Some x"
  shows "create_product P E request fs =
     (if index_by_id P (seq data ''products'') (chosen_id P E ''p-'' (get_body request)) \<noteq> None
      then (fs1, Inr (bad_request ''Product id already exists''))
      else (save_db (AList.update ''products''
                      (JList (seq data ''products'' @ [new_product P E (get_body request) x])) data),
            Inr (201, new_product P E (get_body request) x)))"
proof -
  from assms(3) have "get (get_body request) ''price'' \<noteq> JNull" by auto
  with assms show ?thesis
    by (simp add: create_product_def Let_def new_product_def chosen_id_def)
qed

lemma create_product_early:
  assumes "\<not> (truthy P (get (get_body request) ''name'') \<and>
              py_float P (get (get_body request) ''price'') \<noteq> None)"
  shows "\<exists>msg. create_product P E request fs = (fs, Inr (bad_request msg))"
  using assms
  by (cases "get (get_body request) ''price'' = JNull")
     (auto simp: create_product_def Let_def)

lemma create_product_load_error:
  assumes "load_db fs = (fs1, Inl e)"
  shows "snd (create_product P E request fs) \<noteq> Inr (201, r)"
  using assms
  by (auto simp: create_product_def Let_def bad_request_def split: option.splits)

lemma create_product_created:
  assumes "create_product P E request fs = (fs', Inr (201, r))"
  shows "\<exists>fs1 data x.
           load_db fs = (fs1, Inr data) \<and>
           truthy P (get (get_body request) ''name'') \<and>
           py_float P (get (get_body request) ''price'') = Some x \<and>
           r = new_product P E (get_body request) x \<and>
           index_by_id P (seq data ''products'') (chosen_id P E ''p-'' (get_body request)) = None \<and>
           fs' = save_db (AList.update ''products'' (JList (seq data ''products'' @ [r])) data)"
proof -
  let ?body = "get_body request"
  have ok: "truthy P (get ?body ''name'') \<and> py_float P (get ?body ''price'') \<noteq> None"
  proof (rule ccontr)
    assume "\<not> ?thesis"
    from create_product_early[OF this, of E fs] assms show False
      by (auto simp: bad_request_def)
  qed
  then obtain x where x: "py_float P (get ?body ''price'') = Some x" by blast
  obtain fs1 res where l: "load_db fs = (fs1, res)" by (cases "load_db fs")
  show ?thesis
  proof (cases res)
    case (Inl e)
    with l create_product_load_error[of fs fs1 e P E request r] assms show ?thesis by simp
  next
    case (Inr data)
    with l have l': "load_db fs = (fs1, Inr data)" by simp
    from create_product_run[OF l' conjunct1[OF ok] x, of E] assms
    show ?thesis using l' ok x
      by (auto simp: bad_request_def split: if_splits)
  qed
qed

lemma indexed_new_product:
  "indexed P key (new_product P E body x) \<longleftrightarrow> key = chosen_id P E ''p-'' body"
  by (auto simp: indexed_def new_product_def has_key_def get_def get_default_def str_of_JStr)

lemma create_then_get_product:
  assumes "create_product P E request fs = (fs', Inr (201, r))"
  shows "\<exists>d pid. r = JObj d \<and> map_of d ''id'' = Some (JStr pid) \<and>
           get_product P pid fs' = (fs', Inr (200, r))"
proof -
  from create_product_created[OF assms] obtain fs1 data x where
    l: "load_db fs = (fs1, Inr data)" and
    r: "r = new_product P E (get_body request) x" and
    fs': "fs' = save_db (AList.update ''products'' (JList (seq data ''products'' @ [r])) data)"
    by blast
  define pid where "pid = chosen_id P E ''p-'' (get_body request)"
  have l': "load_db fs' = (fs', Inr (AList.update ''products'' (JList (seq data ''products'' @ [r])) data))"
    unfolding fs' by (rule load_db_after_save[OF l]) simp
  have "indexed P pid r" by (simp add: r indexed_new_product pid_def)
  then have "index_by_id P (seq data ''products'' @ [r]) pid = Some (length (seq data ''products''))"
    by (simp add: index_by_id_snoc)
  then have "get_product P pid fs' = (fs', Inr (200, r))"
    by (simp add: get_product_def l' seq_update_same)
  moreover have "\<exists>d. r = JObj d \<and> map_of d ''id'' = Some (JStr pid)"
    by (simp add: r new_product_def pid_def)
  ultimately show ?thesis by blast
qed

subsection \<open>The validation loop\<close>

lemma spec_item_ok_code:
  assumes "strip P [] = []"
  shows "spec_item_ok P idx it \<longleftrightarrow>
     (\<exists>d q. it = JObj d \<and>
        strip P (str_of P (get_default d ''productId'' (JStr []))) \<noteq> [] \<and>
        idx (strip P (str_of P (get_default d ''productId'' (JStr [])))) \<noteq> None \<and>
        py_int P (get d ''qty'') = Some q \<and> 0 < q)"
proof (cases it)
  case (JObj d)
  show ?thesis
  proof (cases "map_of d ''productId''")
    case None
    with JObj assms show ?thesis
      by (simp add: spec_item_ok_def has_key_def get_default_def str_of_JStr)
  next
    case (Some v)
    with JObj show ?thesis
      by (auto simp: spec_item_ok_def has_key_def get_default_def get_def split: option.splits)
  qed
qed (simp_all add: spec_item_ok_def)

lemma validate_items_Inl:
  "validate_items P idx acc its = Inl resp \<Longrightarrow> \<exists>msg. resp = bad_request msg"
  by (induction its arbitrary: acc)
     (auto simp: Let_def split: json.splits option.splits if_splits)

lemma validate_items_Inr:
  assumes "strip P [] = []" "validate_items P idx acc its = Inr out"
  shows "(\<forall>it \<in> set its. spec_item_ok P idx it) \<and> out = acc @ map (normalized P) its"
  using assms(2)
proof (induction its arbitrary: acc)
  case Nil
  then show ?case by simp
next
  case (Cons it its)
  from Cons.prems obtain d where d: "it = JObj d" by (cases it) auto
  let ?pid = "strip P (str_of P (get_default d ''productId'' (JStr [])))"
  from Cons.prems d have p: "?pid \<noteq> []" "idx ?pid \<noteq> None"
    by (auto simp: Let_def split: if_splits)
  from Cons.prems d p obtain q where q: "py_int P (get d ''qty'') = Some q" "0 < q"
    by (cases "py_int P (get d ''qty'')") (auto simp: Let_def split: if_splits)
  from Cons.prems d p q have
    r: "validate_items P idx (acc @ [JObj [(''productId'', JStr ?pid), (''qty'', JInt q)]]) its = Inr out"
    by (simp add: Let_def)
  have ok: "spec_item_ok P idx it"
    using d p q by (subst spec_item_ok_code[OF assms(1)]) simp
  have n: "normalized P it = JObj [(''productId'', JStr ?pid), (''qty'', JInt q)]"
    using d q by (simp add: normalized_def)
  from Cons.IH[OF r] ok n show ?case by simp
qed

lemma validate_items_ok:
  assumes "strip P [] = []" "\<forall>it \<in> set its. spec_item_ok P idx it"
  shows "validate_items P idx acc its = Inr (acc @ map (normalized P) its)"
  using assms(2)
proof (induction its arbitrary: acc)
  case Nil
  then show ?case by simp
next
  case (Cons it its)
  from Cons.prems have "spec_item_ok P idx it" by simp
  then obtain d q where d: "it = JObj d"
    and p: "strip P (str_of P (get_default d ''productId'' (JStr []))) \<noteq> []"
       "idx (strip P (str_of P (get_default d ''productId'' (JStr [])))) \<noteq> None"
    and q: "py_int P (get d ''qty'') = Some q" "0 < q"
    by (subst (asm) spec_item_ok_code[OF assms(1)]) blast
  from Cons.prems have "\<forall>it \<in> set its. spec_item_ok P idx it" by simp
  from Cons.IH[OF this] d p q show ?case
    by (simp add: Let_def normalized_def)
qed

lemma validate_items_rejects:
  assumes "strip P [] = []" "\<exists>it \<in> set its. \<not> spec_item_ok P idx it"
  shows "\<exists>msg. validate_items P idx acc its = Inl (bad_request msg)"
proof (cases "validate_items P idx acc its")
  case (Inl resp)
  then show ?thesis by (auto dest: validate_items_Inl)
next
  case (Inr out)
  from validate_items_Inr[OF assms(1) Inr] assms(2) show ?thesis by blast
qed

subsection \<open>Creating an order\<close>

lemma create_order_early:
  assumes "\<not> (truthy P (get (get_body request) ''customer'') \<and>
              (\<exists>i is. get (get_body request) ''items'' = JList (i # is)))"
  shows "\<exists>msg. create_order P E request fs = (fs, Inr (bad_request msg))"
proof (cases "truthy P (get (get_body request) ''customer'')")
  case False
  then show ?thesis by (auto simp: create_order_def Let_def)
next
  case True
  with assms have "\<forall>i is. get (get_body request) ''items'' \<noteq> JList (i # is)" by blast
  with True show ?thesis
    by (auto simp: create_order_def Let_def split: json.splits list.splits)
qed

lemma create_order_run:
  assumes "load_db fs = (fs1, Inr data)"
    "truthy P (get (get_body request) ''customer'')"
    "get (get_body request) ''items'' = JList its" "its \<noteq> []"
  shows "create_order P E request fs =
     (case validate_items P (index_by_id P (seq data ''products'')) [] its of
        Inl resp \<Rightarrow> (fs1, Inr resp)
      | Inr normalized_items \<Rightarrow>
          if index_by_id P (seq data ''orders'') (chosen_id P E ''o-'' (get_body request)) \<noteq> None
          then (fs1, Inr (bad_request ''Order id already exists''))
          else (save_db (AList.update ''orders''
                      (JList (seq data ''orders'' @ [new_order P E (get_body request) normalized_items])) data),
                Inr (201, new_order P E (get_body request) normalized_items)))"
proof -
  from assms(4) obtain i "is" where "its = i # is" by (cases its) auto
  with assms show ?thesis
    by (simp add: create_order_def Let_def new_order_def chosen_id_def split: sum.splits)
qed

lemma create_order_load_error:
  assumes "load_db fs = (fs1, Inl e)"
  shows "snd (create_order P E request fs) \<noteq> Inr (201, r)"
  using assms
  by (auto simp: create_order_def Let_def bad_request_def split: json.splits list.splits)

lemma create_order_created:
  assumes "create_order P E request fs = (fs', Inr (201, r))"
  shows "\<exists>fs1 data its items.
           load_db fs = (fs1, Inr data) \<and>
           truthy P (get (get_body request) ''customer'') \<and>
           get (get_body request) ''items'' = JList its \<and> its \<noteq> [] \<and>
           validate_items P (index_by_id P (seq data ''products'')) [] its = Inr items \<and>
           r = new_order P E (get_body request) items \<and>
           index_by_id P (seq data ''orders'') (chosen_id P E ''o-'' (get_body request)) = None \<and>
           fs' = save_db (AList.update ''orders'' (JList (seq data ''orders'' @ [r])) data)"
proof -
  let ?body = "get_body request"
  have ok: "truthy P (get ?body ''customer'') \<and> (\<exists>i is. get ?body ''items'' = JList (i # is))"
  proof (rule ccontr)
    assume "\<not> ?thesis"
    from create_order_early[OF this, of E fs] assms show False
      by (auto simp: bad_request_def)
  qed
  then obtain its where its: "get ?body ''items'' = JList its" "its \<noteq> []" by blast
  obtain fs1 res where l: "load_db fs = (fs1, res)" by (cases "load_db fs")
  show ?thesis
  proof (cases res)
    case (Inl e)
    with l create_order_load_error[of fs fs1 e P E request r] assms show ?thesis by simp
  next
    case (Inr data)
    with l have l': "load_db fs = (fs1, Inr data)" by simp
    note run = create_order_run[OF l' conjunct1[OF ok] its, of E]
    show ?thesis
    proof (cases "validate_items P (index_by_id P (seq data ''products'')) [] its")
      case (Inl resp)
      then obtain msg where "resp = bad_request msg" by (auto dest: validate_items_Inl)
      with run Inl assms show ?thesis by (simp add: bad_request_def)
    next
      case (Inr items)
      with run assms l' ok its show ?thesis
        by (auto simp: bad_request_def split: if_splits)
    qed
  qed
qed

lemma indexed_new_order:
  "indexed P key (new_order P E body items) \<longleftrightarrow> key = chosen_id P E ''o-'' body"
  by (auto simp: indexed_def new_order_def has_key_def get_def get_default_def str_of_JStr)

lemma create_then_get_order:
  assumes "create_order P E request fs = (fs', Inr (201, r))"
  shows "\<exists>d oid. r = JObj d \<and> map_of d ''id'' = Some (JStr oid) \<and>
           get_order P oid fs' = (fs', Inr (200, r))"
proof -
  from create_order_created[OF assms] obtain fs1 data items where
    l: "load_db fs = (fs1, Inr data)" and
    r: "r = new_order P E (get_body request) items" and
    fs': "fs' = save_db (AList.update ''orders'' (JList (seq data ''orders'' @ [r])) data)"
    by blast
  define oid where "oid = chosen_id P E ''o-'' (get_body request)"
  have l': "load_db fs' = (fs', Inr (AList.update ''orders'' (JList (seq data ''orders'' @ [r])) data))"
    unfolding fs' by (rule load_db_after_save[OF l]) simp
  have "indexed P oid r" by (simp add: r indexed_new_order oid_def)
  then have "index_by_id P (seq data ''orders'' @ [r]) oid = Some (length (seq data ''orders''))"
    by (simp add: index_by_id_snoc)
  then have "get_order P oid fs' = (fs', Inr (200, r))"
    by (simp add: get_order_def l' seq_update_same)
  moreover have "\<exists>d. r = JObj d \<and> map_of d ''id'' = Some (JStr oid)"
    by (simp add: r new_order_def oid_def)
  ultimately show ?thesis by blast
qed

subsection \<open>The id of a new record\<close>

lemma chosen_id_truthy:
  "truthy P (get body ''id'') \<Longrightarrow> chosen_id P E prefix body = str_of P (get body ''id'')"
  by (simp add: chosen_id_def)

lemma chosen_id_falsy:
  "\<not> truthy P (get body ''id'') \<Longrightarrow> chosen_id P E prefix body = prefix @ take 8 (uuid4_hex E)"
  by (simp add: chosen_id_def str_of_JStr)

lemma new_product_id:
  "\<exists>d. new_product P E body x = JObj d \<and> map_of d ''id'' = Some (JStr (chosen_id P E ''p-'' body))"
  by (simp add: new_product_def)

lemma new_order_id:
  "\<exists>d. new_order P E body items = JObj d \<and> map_of d ''id'' = Some (JStr (chosen_id P E ''o-'' body))"
  by (simp add: new_order_def)

lemma create_product_duplicate:
  assumes "load_db fs = (fs1, Inr data)"
    "index_by_id P (seq data ''products'') (chosen_id P E ''p-'' (get_body request)) \<noteq> None"
  shows "\<exists>msg. create_product P E request fs = (fs, Inr (bad_request msg))"
proof (cases "truthy P (get (get_body request) ''name'') \<and>
              py_float P (get (get_body request) ''price'') \<noteq> None")
  case False
  then show ?thesis by (rule create_product_early)
next
  case True
  then obtain x where x: "py_float P (get (get_body request) ''price'') = Some x" by blast
  from index_nonempty_unchanged[OF assms] have "fs1 = fs" .
  with create_product_run[OF assms(1) conjunct1[OF True] x, of E] assms(2)
  show ?thesis by auto
qed

lemma create_order_duplicate:
  assumes "load_db fs = (fs1, Inr data)"
    "index_by_id P (seq data ''orders'') (chosen_id P E ''o-'' (get_body request)) \<noteq> None"
  shows "\<exists>msg. create_order P E request fs = (fs, Inr (bad_request msg))"
proof (cases "truthy P (get (get_body request) ''customer'') \<and>
              (\<exists>i is. get (get_body request) ''items'' = JList (i # is))")
  case False
  then show ?thesis by (rule create_order_early)
next
  case True
  then obtain its where its: "get (get_body request) ''items'' = JList its" "its \<noteq> []" by blast
  from index_nonempty_unchanged[OF assms] have fs1: "fs1 = fs" .
  note run = create_order_run[OF assms(1) conjunct1[OF True] its, of E]
  show ?thesis
  proof (cases "validate_items P (index_by_id P (seq data ''products'')) [] its")
    case (Inl resp)
    then obtain msg where "resp = bad_request msg" by (auto dest: validate_items_Inl)
    with run Inl fs1 show ?thesis by auto
  next
    case (Inr items)
    with run assms(2) fs1 show ?thesis by auto
  qed
qed

lemma create_product_fresh:
  assumes "load_db fs = (fs1, Inr data)"
    "index_by_id P (seq data ''products'') (chosen_id P E ''p-'' (get_body request)) = None"
    "truthy P (get (get_body request) ''name'')"
    "py_float P (get (get_body request) ''price'') = Some x"
  shows "\<exists>fs' d. create_product P E request fs = (fs', Inr (201, JObj d)) \<and>
           map_of d ''id'' = Some (JStr (chosen_id P E ''p-'' (get_body request)))"
  using create_product_run[OF assms(1,3,4), of E] assms(2)
    new_product_id[of P E "get_body request" x]
  by auto

lemma create_order_fresh:
  assumes "load_db fs = (fs1, Inr data)"
    "index_by_id P (seq data ''orders'') (chosen_id P E ''o-'' (get_body request)) = None"
    "truthy P (get (get_body request) ''customer'')"
    "get (get_body request) ''items'' = JList its" "its \<noteq> []"
    "validate_items P (index_by_id P (seq data ''products'')) [] its = Inr items"
  shows "\<exists>fs' d. create_order P E request fs = (fs', Inr (201, JObj d)) \<and>
           map_of d ''id'' = Some (JStr (chosen_id P E ''o-'' (get_body request)))"
  using create_order_run[OF assms(1,3,4,5), of E] assms(2,6)
    new_order_id[of P E "get_body request" items]
  by auto

lemma create_product_created_id:
  assumes "create_product P E request fs = (fs', Inr (201, r))"
  shows "\<exists>d. r = JObj d \<and> map_of d ''id'' = Some (JStr (chosen_id P E ''p-'' (get_body request)))"
  using create_product_created[OF assms] new_product_id[of P E "get_body request"] by auto

lemma create_order_created_id:
  assumes "create_order P E request fs = (fs', Inr (201, r))"
  shows "\<exists>d. r = JObj d \<and> map_of d ''id'' = Some (JStr (chosen_id P E ''o-'' (get_body request)))"
  using create_order_created[OF assms] new_order_id[of P E "get_body request"] by auto

lemma get_delete_other: "k \<noteq> k' \<Longrightarrow> get (AList.delete k' b) k = get b k"
  by (simp add: get_def get_default_def delete_conv')

lemma get_default_delete_other: "k \<noteq> k' \<Longrightarrow> get_default (AList.delete k' b) k v = get_default b k v"
  by (simp add: get_default_def delete_conv')

lemma get_delete_same: "get (AList.delete k b) k = JNull"
  by (simp add: get_def get_default_def delete_conv')

lemma create_product_cong:
  assumes "get (get_body r1) ''name'' = get (get_body r2) ''name''"
    "get (get_body r1) ''price'' = get (get_body r2) ''price''"
    "(if truthy P (get (get_body r1) ''id'') then get (get_body r1) ''id''
      else JStr (''p-'' @ take 8 (uuid4_hex E))) =
     (if truthy P (get (get_body r2) ''id'') then get (get_body r2) ''id''
      else JStr (''p-'' @ take 8 (uuid4_hex E)))"
  shows "create_product P E r1 fs = create_product P E r2 fs"
  unfolding create_product_def Let_def by (simp only: assms)

lemma create_order_cong:
  assumes "get (get_body r1) ''customer'' = get (get_body r2) ''customer''"
    "get (get_body r1) ''items'' = get (get_body r2) ''items''"
    "get_default (get_body r1) ''status'' (JStr ''NEW'') =
     get_default (get_body r2) ''status'' (JStr ''NEW'')"
    "(if truthy P (get (get_body r1) ''id'') then get (get_body r1) ''id''
      else JStr (''o-'' @ take 8 (uuid4_hex E))) =
     (if truthy P (get (get_body r2) ''id'') then get (get_body r2) ''id''
      else JStr (''o-'' @ take 8 (uuid4_hex E)))"
  shows "create_order P E r1 fs = create_order P E r2 fs"
  unfolding create_order_def Let_def by (simp only: assms)

lemma get_body_JObj: "get_body (JObj d) = d"
  by (simp add: get_body_def)

lemma create_product_ignores_falsy_id:
  assumes "\<not> truthy P (get (get_body request) ''id'')"
  shows "create_product P E request fs =
         create_product P E (JObj (AList.delete ''id'' (get_body request))) fs"
  by (rule create_product_cong)
     (simp_all add: get_body_JObj get_delete_other get_delete_same assms)

lemma create_order_ignores_falsy_id:
  assumes "\<not> truthy P (get (get_body request) ''id'')"
  shows "create_order P E request fs =
         create_order P E (JObj (AList.delete ''id'' (get_body request))) fs"
  by (rule create_order_cong)
     (simp_all add: get_body_JObj get_delete_other get_default_delete_other get_delete_same assms)

lemma is_hex_take: "is_hex s \<Longrightarrow> is_hex (take n s)"
  unfolding is_hex_def by (meson in_set_takeD)

subsection \<open>Updating, and the responses of the writes\<close>

lemma update_product_load_error:
  "load_db fs = (fs1, Inl e) \<Longrightarrow> update_product P pid request fs = (fs1, Inl e)"
  by (simp add: update_product_def)

lemma update_product_missing:
  "load_db fs = (fs1, Inr data) \<Longrightarrow> index_by_id P (seq data ''products'') pid = None \<Longrightarrow>
   update_product P pid request fs = (fs1, Inr (not_found ''product not found''))"
  by (simp add: update_product_def)

lemma update_product_run:
  assumes "load_db fs = (fs1, Inr data)" "index_by_id P (seq data ''products'') pid = Some j"
  shows "update_product P pid request fs =
     (case product_fields P (get_body request) (seq data ''products'') j of
        Inl resp \<Rightarrow> (fs1, Inr resp)
      | Inr products2 \<Rightarrow>
         (case write_back P pid (products2 ! j) products2 of
            Inl e \<Rightarrow> (fs1, Inl e)
          | Inr products3 \<Rightarrow>
             (save_db (AList.update ''products'' (JList products3) data),
              Inr (200, products2 ! j))))"
  unfolding update_product_def product_fields_def Let_def
  by (simp only: assms prod.case sum.case option.case)

lemma update_order_load_error:
  "load_db fs = (fs1, Inl e) \<Longrightarrow> update_order P oid request fs = (fs1, Inl e)"
  by (simp add: update_order_def)

lemma update_order_missing:
  "load_db fs = (fs1, Inr data) \<Longrightarrow> index_by_id P (seq data ''orders'') oid = None \<Longrightarrow>
   update_order P oid request fs = (fs1, Inr (not_found ''order not found''))"
  by (simp add: update_order_def)

lemma update_order_run:
  assumes "load_db fs = (fs1, Inr data)" "index_by_id P (seq data ''orders'') oid = Some j"
  shows "update_order P oid request fs =
     (case order_fields P (get_body request) data j of
        Inl resp \<Rightarrow> (fs1, Inr resp)
      | Inr orders3 \<Rightarrow>
         (case write_back P oid (orders3 ! j) orders3 of
            Inl e \<Rightarrow> (fs1, Inl e)
          | Inr orders4 \<Rightarrow>
             (save_db (AList.update ''orders'' (JList orders4) data),
              Inr (200, orders3 ! j))))"
  unfolding update_order_def order_fields_def Let_def
  by (simp only: assms prod.case sum.case option.case)

lemma product_fields_Inl:
  "product_fields P body products j = Inl resp \<Longrightarrow> \<exists>msg. resp = bad_request msg"
  by (auto simp: product_fields_def Let_def split: if_splits option.splits)

lemma order_fields_Inl:
  assumes "order_fields P body data j = Inl resp"
  shows "\<exists>msg. resp = bad_request msg"
proof (cases "has_key body ''items''")
  case False
  with assms show ?thesis by (simp add: order_fields_def Let_def)
next
  case True
  show ?thesis
  proof (cases "\<exists>i is. get body ''items'' = JList (i # is)")
    case False
    with True assms have "resp = bad_request ''items must be a non-empty list''"
      by (auto simp: order_fields_def Let_def split: json.splits list.splits)
    then show ?thesis by blast
  next
    case b: True
    then obtain i "is" where its: "get body ''items'' = JList (i # is)" by blast
    with True assms have "validate_items P (index_by_id P (seq data ''products'')) [] (i # is) = Inl resp"
      by (simp add: order_fields_def Let_def split: sum.splits)
    then show ?thesis by (rule validate_items_Inl)
  qed
qed

lemma status_codes: "fst (bad_request msg) = 400" "fst (not_found msg) = 404"
  by (simp_all add: bad_request_def not_found_def)

lemma update_product_400:
  assumes "update_product P pid request fs = (fs', Inr (400, b))"
  shows "fs' = fs"
proof -
  obtain fs1 res where l: "load_db fs = (fs1, res)" by (cases "load_db fs")
  show ?thesis
  proof (cases res)
    case (Inl e)
    with l assms show ?thesis by (simp add: update_product_load_error)
  next
    case (Inr data)
    with l have l': "load_db fs = (fs1, Inr data)" by simp
    show ?thesis
    proof (cases "index_by_id P (seq data ''products'') pid")
      case None
      from update_product_missing[OF l' None, of request] assms show ?thesis
        by (simp add: not_found_def)
    next
      case (Some j)
      then have "index_by_id P (seq data ''products'') pid \<noteq> None" by simp
      from index_nonempty_unchanged[OF l' this] have fs1: "fs1 = fs" .
      from update_product_run[OF l' Some, of request] assms fs1 show ?thesis
        by (auto split: sum.splits)
    qed
  qed
qed

lemma update_order_400:
  assumes "update_order P oid request fs = (fs', Inr (400, b))"
  shows "fs' = fs"
proof -
  obtain fs1 res where l: "load_db fs = (fs1, res)" by (cases "load_db fs")
  show ?thesis
  proof (cases res)
    case (Inl e)
    with l assms show ?thesis by (simp add: update_order_load_error)
  next
    case (Inr data)
    with l have l': "load_db fs = (fs1, Inr data)" by simp
    show ?thesis
    proof (cases "index_by_id P (seq data ''orders'') oid")
      case None
      from update_order_missing[OF l' None, of request] assms show ?thesis
        by (simp add: not_found_def)
    next
      case (Some j)
      then have "index_by_id P (seq data ''orders'') oid \<noteq> None" by simp
      from index_nonempty_unchanged[OF l' this] have fs1: "fs1 = fs" .
      from update_order_run[OF l' Some, of request] assms fs1 show ?thesis
        by (auto split: sum.splits)
    qed
  qed
qed

lemma delete_product_codes:
  assumes "delete_product P pid fs = (fs', Inr (c, b))"
  shows "c = 404 \<or> c = 200"
proof -
  obtain fs1 res where l: "load_db fs = (fs1, res)" by (cases "load_db fs")
  show ?thesis
  proof (cases res)
    case (Inl e)
    with l assms show ?thesis by (simp add: delete_product_def)
  next
    case (Inr data)
    with l assms show ?thesis
      by (auto simp: delete_product_def Let_def not_found_def split: sum.splits if_splits)
  qed
qed

lemma delete_order_codes:
  assumes "delete_order P oid fs = (fs', Inr (c, b))"
  shows "c = 404 \<or> c = 200"
proof -
  obtain fs1 res where l: "load_db fs = (fs1, res)" by (cases "load_db fs")
  show ?thesis
  proof (cases res)
    case (Inl e)
    with l assms show ?thesis by (simp add: delete_order_def)
  next
    case (Inr data)
    with l assms show ?thesis
      by (auto simp: delete_order_def Let_def not_found_def split: sum.splits if_splits)
  qed
qed

lemma create_product_load_error_exact:
  assumes "load_db fs = (fs1, Inl e)"
    "truthy P (get (get_body request) ''name'')"
    "py_float P (get (get_body request) ''price'') = Some x"
  shows "create_product P E request fs = (fs1, Inl e)"
proof -
  from assms(3) have "get (get_body request) ''price'' \<noteq> JNull" by auto
  with assms show ?thesis by (simp add: create_product_def Let_def)
qed

lemma create_product_400:
  assumes "create_product P E request fs = (fs', Inr (400, b))"
  shows "fs' = fs"
proof (cases "truthy P (get (get_body request) ''name'') \<and>
              py_float P (get (get_body request) ''price'') \<noteq> None")
  case False
  from create_product_early[OF this, of E fs] assms show ?thesis by auto
next
  case True
  then obtain x where x: "py_float P (get (get_body request) ''price'') = Some x" by blast
  obtain fs1 res where l: "load_db fs = (fs1, res)" by (cases "load_db fs")
  show ?thesis
  proof (cases res)
    case (Inl e)
    with l create_product_load_error_exact[OF _ conjunct1[OF True] x, of fs fs1 e E] assms
    show ?thesis by simp
  next
    case (Inr data)
    with l have l': "load_db fs = (fs1, Inr data)" by simp
    from create_product_run[OF l' conjunct1[OF True] x, of E] assms
    have "index_by_id P (seq data ''products'') (chosen_id P E ''p-'' (get_body request)) \<noteq> None"
      and "fs' = fs1"
      by (auto split: if_splits)
    with index_nonempty_unchanged[OF l'] show ?thesis by blast
  qed
qed

lemma create_order_load_error_exact:
  assumes "load_db fs = (fs1, Inl e)"
    "truthy P (get (get_body request) ''customer'')"
    "get (get_body request) ''items'' = JList (i # is)"
  shows "create_order P E request fs = (fs1, Inl e)"
  using assms by (simp add: create_order_def Let_def)

lemma create_order_400:
  assumes "create_order P E request fs = (fs', Inr (400, b))"
  shows "fs' = fs \<or> fs' = ensure_db_exists fs"
proof (cases "truthy P (get (get_body request) ''customer'') \<and>
              (\<exists>i is. get (get_body request) ''items'' = JList (i # is))")
  case False
  from create_order_early[OF this, of E fs] assms show ?thesis by auto
next
  case True
  then obtain i "is" where its: "get (get_body request) ''items'' = JList (i # is)" by blast
  obtain fs1 res where l: "load_db fs = (fs1, res)" by (cases "load_db fs")
  with load_db_fst[of fs] have fs1: "fs1 = ensure_db_exists fs" by simp
  show ?thesis
  proof (cases res)
    case (Inl e)
    with l create_order_load_error_exact[OF _ conjunct1[OF True] its, of fs fs1 e E] assms
    show ?thesis by simp
  next
    case (Inr data)
    with l have l': "load_db fs = (fs1, Inr data)" by simp
    from create_order_run[OF l' conjunct1[OF True] its, of E] assms
    have "fs' = fs1"
      by (auto split: sum.splits if_splits)
    with fs1 show ?thesis by simp
  qed
qed

lemma ensure_db_exists_cases:
  "ensure_db_exists fs = fs \<or>
   ((fs = None \<or> fs = Some Blank) \<and> ensure_db_exists fs = Some (Parsed (JObj empty_db)))"
  by (cases fs rule: db_file_cases) (simp_all add: ensure_db_exists_def)

lemma has_key_get: "get body k \<noteq> JNull \<Longrightarrow> has_key body k"
  by (auto simp: get_def get_default_def has_key_def split: option.splits)

lemma validate_items_normalized:
  "validate_items P idx acc its = Inr out \<Longrightarrow> out = acc @ map (normalized P) its"
proof (induction its arbitrary: acc)
  case Nil
  then show ?case by simp
next
  case (Cons it its)
  from Cons.prems obtain d where d: "it = JObj d" by (cases it) auto
  let ?pid = "strip P (str_of P (get_default d ''productId'' (JStr [])))"
  from Cons.prems d have p: "?pid \<noteq> []" "idx ?pid \<noteq> None"
    by (auto simp: Let_def split: if_splits)
  from Cons.prems d p obtain q where q: "py_int P (get d ''qty'') = Some q" "0 < q"
    by (cases "py_int P (get d ''qty'')") (auto simp: Let_def split: if_splits)
  from Cons.prems d p q have
    r: "validate_items P idx (acc @ [JObj [(''productId'', JStr ?pid), (''qty'', JInt q)]]) its = Inr out"
    by (simp add: Let_def)
  have n: "normalized P it = JObj [(''productId'', JStr ?pid), (''qty'', JInt q)]"
    using d q by (simp add: normalized_def)
  from Cons.IH[OF r] n show ?case by simp
qed

lemma set_field_obj:
  "xs ! j = JObj d \<Longrightarrow> set_field xs j k v = xs[j := JObj (AList.update k v d)]"
  by (simp add: set_field_def)

lemma order_fields_Inr:
  assumes "order_fields P body data j = Inr orders3" "j < length (seq data ''orders'')"
    "seq data ''orders'' ! j = JObj d"
  shows "\<exists>d'. orders3 = (seq data ''orders'')[j := JObj d'] \<and>
    (\<forall>k. (k \<noteq> ''status'' \<and> k \<noteq> ''customer'' \<and> k \<noteq> ''items'') \<or> \<not> has_key body k \<longrightarrow>
         map_of d' k = map_of d k) \<and>
    (has_key body ''status'' \<longrightarrow>
       map_of d' ''status'' = Some (JStr (str_of P (get body ''status'')))) \<and>
    (has_key body ''customer'' \<longrightarrow>
       map_of d' ''customer'' = Some (JStr (str_of P (get body ''customer'')))) \<and>
    (has_key body ''items'' \<longrightarrow>
       (\<exists>its new. its \<noteq> [] \<and> get body ''items'' = JList its \<and>
          validate_items P (index_by_id P (seq data ''products'')) [] its = Inr new \<and>
          map_of d' ''items'' = Some (JList new)))"
proof -
  let ?orders = "seq data ''orders''"
  define d1 where "d1 = (if has_key body ''status''
      then AList.update ''status'' (JStr (str_of P (get body ''status''))) d else d)"
  define d2 where "d2 = (if has_key body ''customer''
      then AList.update ''customer'' (JStr (str_of P (get body ''customer''))) d1 else d1)"
  define orders1 where "orders1 = (if has_key body ''status''
      then set_field ?orders j ''status'' (JStr (str_of P (get body ''status''))) else ?orders)"
  define orders2 where "orders2 = (if has_key body ''customer''
      then set_field orders1 j ''customer'' (JStr (str_of P (get body ''customer''))) else orders1)"
  have same: "?orders[j := JObj d] = ?orders"
    using assms(3) by (metis list_update_id)
  have o1: "orders1 = ?orders[j := JObj d1]"
    using assms(3) same by (simp add: orders1_def d1_def set_field_obj)
  then have o1j: "orders1 ! j = JObj d1" using assms(2) by simp
  have o2: "orders2 = ?orders[j := JObj d2]"
    using o1j by (simp add: orders2_def d2_def set_field_obj o1)
  then have o2j: "orders2 ! j = JObj d2" using assms(2) by simp
  have m2: "map_of d2 k =
      (if k = ''customer'' \<and> has_key body ''customer''
       then Some (JStr (str_of P (get body ''customer'')))
       else if k = ''status'' \<and> has_key body ''status''
       then Some (JStr (str_of P (get body ''status'')))
       else map_of d k)" for k
    by (simp add: d2_def d1_def update_conv')
  have of: "order_fields P body data j =
      (if has_key body ''items''
         then (case get body ''items'' of
                 JList (i # is) \<Rightarrow>
                   (case validate_items P (index_by_id P (seq data ''products'')) [] (i # is) of
                      Inl resp \<Rightarrow> Inl resp
                    | Inr new_items \<Rightarrow> Inr (set_field orders2 j ''items'' (JList new_items)))
               | _ \<Rightarrow> Inl (bad_request ''items must be a non-empty list''))
         else Inr orders2)"
    unfolding order_fields_def Let_def orders2_def orders1_def ..
  show ?thesis
  proof (cases "has_key body ''items''")
    case False
    with assms(1) of have "orders3 = ?orders[j := JObj d2]" by (simp add: o2)
    with False m2 show ?thesis by (intro exI[of _ d2]) (auto simp: has_key_def)
  next
    case True
    with assms(1) of obtain i "is" where its: "get body ''items'' = JList (i # is)"
      by (auto split: json.splits list.splits)
    with assms(1) of True obtain new where
      v: "validate_items P (index_by_id P (seq data ''products'')) [] (i # is) = Inr new"
      and o3: "orders3 = set_field orders2 j ''items'' (JList new)"
      by (auto split: sum.splits)
    define d3 where "d3 = AList.update ''items'' (JList new) d2"
    from o3 o2j have "orders3 = ?orders[j := JObj d3]"
      by (simp add: set_field_obj o2 d3_def)
    moreover have "map_of d3 k = (if k = ''items'' then Some (JList new) else map_of d2 k)" for k
      by (simp add: d3_def update_conv')
    ultimately show ?thesis using m2 its v True
      by (intro exI[of _ d3]) (auto simp: has_key_def)
  qed
qed

lemma order_fields_rejects:
  assumes "strip P [] = []" "get body ''items'' = JList its"
    "\<exists>it \<in> set its. \<not> spec_item_ok P (index_by_id P (seq data ''products'')) it"
  shows "\<exists>msg. order_fields P body data j = Inl (bad_request msg)"
proof -
  from assms(2) have hk: "has_key body ''items''" by (simp add: has_key_get)
  from assms(3) obtain i "is" where its: "its = i # is" by (cases its) auto
  from validate_items_rejects[OF assms(1,3), of "[]"] obtain msg where
    "validate_items P (index_by_id P (seq data ''products'')) [] its = Inl (bad_request msg)"
    by blast
  with hk its assms(2) show ?thesis
    by (auto simp add: order_fields_def Let_def simp del: validate_items.simps)
qed

lemma update_order_ok:
  assumes "update_order P oid request fs = (fs', Inr (200, r'))"
  shows "\<exists>data j orders3 orders4.
           load_db fs = (fs, Inr data) \<and>
           index_by_id P (seq data ''orders'') oid = Some j \<and>
           order_fields P (get_body request) data j = Inr orders3 \<and>
           write_back P oid (orders3 ! j) orders3 = Inr orders4 \<and>
           r' = orders3 ! j \<and>
           fs' = save_db (AList.update ''orders'' (JList orders4) data)"
proof -
  obtain fs1 res where l: "load_db fs = (fs1, res)" by (cases "load_db fs")
  show ?thesis
  proof (cases res)
    case (Inl e)
    with l assms show ?thesis by (simp add: update_order_load_error)
  next
    case (Inr data)
    with l have l': "load_db fs = (fs1, Inr data)" by simp
    show ?thesis
    proof (cases "index_by_id P (seq data ''orders'') oid")
      case None
      from update_order_missing[OF l' None, of request] assms show ?thesis
        by (simp add: not_found_def)
    next
      case (Some j)
      then have "index_by_id P (seq data ''orders'') oid \<noteq> None" by simp
      from index_nonempty_unchanged[OF l' this] have fs1: "fs1 = fs" .
      note run = update_order_run[OF l' Some, of request]
      show ?thesis
      proof (cases "order_fields P (get_body request) data j")
        case (Inl resp)
        then obtain msg where "resp = bad_request msg" by (auto dest: order_fields_Inl)
        with run Inl assms show ?thesis by (simp add: bad_request_def)
      next
        case o3: (Inr orders3)
        show ?thesis
        proof (cases "write_back P oid (orders3 ! j) orders3")
          case (Inl e)
          with run o3 assms show ?thesis by simp
        next
          case (Inr orders4)
          with run o3 assms l' fs1 Some show ?thesis by auto
        qed
      qed
    qed
  qed
qed

lemma index_by_id_SomeD:
  assumes "index_by_id P xs key = Some j"
  shows "j < length xs \<and> (\<exists>d. xs ! j = JObj d \<and> has_key d ''id'' \<and> str_of P (get d ''id'') = key)"
  using assms unfolding index_by_id_Some_iff
  by (auto simp: indexed_def split: json.splits)

lemma create_product_fresh_file:
  assumes "load_db fs = (fs1, Inr data)"
    "index_by_id P (seq data ''products'') (chosen_id P E ''p-'' (get_body request)) = None"
    "truthy P (get (get_body request) ''name'')"
    "py_float P (get (get_body request) ''price'') = Some x"
  shows "\<exists>d. create_product P E request fs =
            (save_db (AList.update ''products'' (JList (seq data ''products'' @ [JObj d])) data),
             Inr (201, JObj d)) \<and>
           map_of d ''id'' = Some (JStr (chosen_id P E ''p-'' (get_body request)))"
  using create_product_run[OF assms(1,3,4), of E] assms(2)
    new_product_id[of P E "get_body request" x]
  by auto

lemma create_order_fresh_file:
  assumes "load_db fs = (fs1, Inr data)"
    "index_by_id P (seq data ''orders'') (chosen_id P E ''o-'' (get_body request)) = None"
    "truthy P (get (get_body request) ''customer'')"
    "get (get_body request) ''items'' = JList its" "its \<noteq> []"
    "validate_items P (index_by_id P (seq data ''products'')) [] its = Inr items"
  shows "\<exists>d. create_order P E request fs =
            (save_db (AList.update ''orders'' (JList (seq data ''orders'' @ [JObj d])) data),
             Inr (201, JObj d)) \<and>
           map_of d ''id'' = Some (JStr (chosen_id P E ''o-'' (get_body request)))"
  using create_order_run[OF assms(1,3,4,5), of E] assms(2,6)
    new_order_id[of P E "get_body request" items]
  by auto

lemma create_product_created_file:
  assumes "create_product P E request fs = (fs', Inr (201, r))" "load_db fs = (fs1, Inr data)"
  shows "\<exists>d. r = JObj d \<and>
           map_of d ''id'' = Some (JStr (chosen_id P E ''p-'' (get_body request))) \<and>
           index_by_id P (seq data ''products'') (chosen_id P E ''p-'' (get_body request)) = None \<and>
           fs' = save_db (AList.update ''products'' (JList (seq data ''products'' @ [r])) data)"
  using create_product_created[OF assms(1)] assms(2)
    new_product_id[of P E "get_body request"]
  by auto

lemma create_order_created_file:
  assumes "create_order P E request fs = (fs', Inr (201, r))" "load_db fs = (fs1, Inr data)"
  shows "\<exists>d. r = JObj d \<and>
           map_of d ''id'' = Some (JStr (chosen_id P E ''o-'' (get_body request))) \<and>
           index_by_id P (seq data ''orders'') (chosen_id P E ''o-'' (get_body request)) = None \<and>
           fs' = save_db (AList.update ''orders'' (JList (seq data ''orders'' @ [r])) data)"
  using create_order_created[OF assms(1)] assms(2)
    new_order_id[of P E "get_body request"]
  by auto

lemma write_back_char:
  assumes "write_back P key r xs = Inr ys" "j < length xs" "xs ! j = JObj d"
    "str_of P (get d ''id'') = key"
  shows "\<exists>i\<le>j. ys = xs[i := r] \<and>
           (\<exists>di. xs ! i = JObj di \<and> str_of P (get di ''id'') = key) \<and>
           (\<forall>m<i. \<exists>dm. xs ! m = JObj dm \<and> str_of P (get dm ''id'') \<noteq> key)"
  using assms
proof (induction xs arbitrary: ys j)
  case Nil
  then show ?case by simp
next
  case (Cons x xs)
  from Cons.prems(1) obtain dx where x: "x = JObj dx" by (cases x) auto
  show ?case
  proof (cases "str_of P (get dx ''id'') = key")
    case True
    with Cons.prems(1) x have "ys = (x # xs)[0 := r]" by simp
    with True x show ?thesis by (intro exI[of _ 0]) simp
  next
    case False
    with Cons.prems(1) x obtain ys' where w: "write_back P key r xs = Inr ys'" and ys: "ys = x # ys'"
      by (auto split: sum.splits)
    from False x Cons.prems(3,4) have "j \<noteq> 0" by (cases j) auto
    then obtain n where n: "j = Suc n" by (cases j) auto
    with Cons.prems have "n < length xs" "xs ! n = JObj d" by simp_all
    from Cons.IH[OF w this Cons.prems(4)] obtain i where
      i: "i \<le> n" "ys' = xs[i := r]"
      "\<exists>di. xs ! i = JObj di \<and> str_of P (get di ''id'') = key"
      "\<forall>m<i. \<exists>dm. xs ! m = JObj dm \<and> str_of P (get dm ''id'') \<noteq> key"
      by blast
    have "\<forall>m<Suc i. \<exists>dm. (x # xs) ! m = JObj dm \<and> str_of P (get dm ''id'') \<noteq> key"
      using i(4) x False by (auto simp: nth_Cons split: nat.splits)
    with i n ys show ?thesis by (intro exI[of _ "Suc i"]) simp
  qed
qed


lemma update_order_stored:
  assumes "update_order P oid request fs = (fs', Inr (200, r'))"
  shows "\<exists>data j d d' i.
     load_db fs = (fs, Inr data) \<and>
     index_by_id P (seq data ''orders'') oid = Some j \<and>
     seq data ''orders'' ! j = JObj d \<and>
     order_fields P (get_body request) data j = Inr ((seq data ''orders'')[j := JObj d']) \<and>
     r' = JObj d' \<and>
     map_of d' ''id'' = map_of d ''id'' \<and>
     i \<le> j \<and>
     (\<exists>di. seq data ''orders'' ! i = JObj di \<and> str_of P (get di ''id'') = oid) \<and>
     (\<forall>m<i. \<exists>dm. seq data ''orders'' ! m = JObj dm \<and> str_of P (get dm ''id'') \<noteq> oid) \<and>
     fs' = save_db (AList.update ''orders''
                      (JList ((seq data ''orders'')[j := JObj d', i := JObj d'])) data) \<and>
     get_order P oid fs = (fs, Inr (200, JObj d)) \<and>
     get_order P oid fs' = (fs', Inr (200, JObj d'))"
proof -
  from update_order_ok[OF assms] obtain data j orders3 orders4 where
    l: "load_db fs = (fs, Inr data)" and
    ix: "index_by_id P (seq data ''orders'') oid = Some j" and
    f: "order_fields P (get_body request) data j = Inr orders3" and
    w: "write_back P oid (orders3 ! j) orders3 = Inr orders4" and
    r: "r' = orders3 ! j" and
    fs': "fs' = save_db (AList.update ''orders'' (JList orders4) data)"
    by blast
  let ?orders = "seq data ''orders''"
  from ix[unfolded index_by_id_Some_iff] have j: "j < length ?orders"
    and ij: "indexed P oid (?orders ! j)"
    and after: "\<forall>m. j < m \<and> m < length ?orders \<longrightarrow> \<not> indexed P oid (?orders ! m)"
    by simp_all
  from ij obtain d where d: "?orders ! j = JObj d" and hk: "has_key d ''id''"
    and sid: "str_of P (get d ''id'') = oid"
    by (auto simp: indexed_def split: json.splits)
  from order_fields_Inr[OF f j d] obtain d' where
    o3: "orders3 = ?orders[j := JObj d']" and
    keep: "\<forall>k. (k \<noteq> ''status'' \<and> k \<noteq> ''customer'' \<and> k \<noteq> ''items'') \<or>
               \<not> has_key (get_body request) k \<longrightarrow> map_of d' k = map_of d k"
    by blast
  from keep have mid: "map_of d' ''id'' = map_of d ''id''" by simp
  then have gid: "get d' ''id'' = get d ''id''" and hk': "has_key d' ''id''"
    using hk by (simp_all add: get_def get_default_def has_key_def)
  from r o3 j have r': "r' = JObj d'" by simp
  have o3j: "orders3 ! j = JObj d'" "j < length orders3" using o3 j by simp_all
  from write_back_char[OF w o3j(2) o3j(1)] gid sid obtain i where
    i: "i \<le> j" "orders4 = orders3[i := orders3 ! j]"
    "\<exists>di. orders3 ! i = JObj di \<and> str_of P (get di ''id'') = oid"
    "\<forall>m<i. \<exists>dm. orders3 ! m = JObj dm \<and> str_of P (get dm ''id'') \<noteq> oid"
    by auto
  have o4: "orders4 = ?orders[j := JObj d', i := JObj d']"
    using i(2) o3 o3j by simp
  have first: "\<exists>di. ?orders ! i = JObj di \<and> str_of P (get di ''id'') = oid"
  proof (cases "i = j")
    case True
    with d sid show ?thesis by simp
  next
    case False
    with i(3) o3 show ?thesis by simp
  qed
  have before: "\<forall>m<i. \<exists>dm. ?orders ! m = JObj dm \<and> str_of P (get dm ''id'') \<noteq> oid"
    using i(1,4) o3 by auto
  have l': "load_db fs' = (fs', Inr (AList.update ''orders'' (JList orders4) data))"
    unfolding fs' by (rule load_db_after_save[OF l]) simp
  have len4: "length orders4 = length ?orders" using o4 by simp
  have o4j: "orders4 ! j = JObj d'" using o4 j i(1) by (cases "i = j") simp_all
  have "indexed P oid (orders4 ! j)"
    using o4j hk' gid sid by (simp add: indexed_def)
  moreover have "\<forall>m. j < m \<and> m < length orders4 \<longrightarrow> \<not> indexed P oid (orders4 ! m)"
    using after o4 i(1) len4 by auto
  ultimately have "index_by_id P orders4 oid = Some j"
    using j len4 by (simp add: index_by_id_Some_iff)
  then have g': "get_order P oid fs' = (fs', Inr (200, JObj d'))"
    by (simp add: get_order_def l' seq_update_same o4j)
  have g: "get_order P oid fs = (fs, Inr (200, JObj d))"
    by (simp add: get_order_def l ix d)
  from l ix d f o3 r' mid i(1) first before fs' o4 g g' show ?thesis
    by blast
qed

lemma update_order_fields:
  assumes u0: "update_order P oid request fs = (fs', res)" and ok: "res = Inr (200, r')"
  shows "\<exists>data j d d' i.
       res = Inr (200, JObj d') \<and>
       load_db fs = (fs, Inr data) \<and>
       get_order P oid fs = (fs, Inr (200, JObj d)) \<and>
       get_order P oid fs' = (fs', Inr (200, JObj d')) \<and>
       (\<forall>k. (k \<noteq> ''status'' \<and> k \<noteq> ''customer'' \<and> k \<noteq> ''items'') \<or>
            \<not> has_key (get_body request) k \<longrightarrow> map_of d' k = map_of d k) \<and>
       (has_key (get_body request) ''status'' \<longrightarrow>
          map_of d' ''status'' = Some (JStr (str_of P (get (get_body request) ''status'')))) \<and>
       (has_key (get_body request) ''customer'' \<longrightarrow>
          map_of d' ''customer'' = Some (JStr (str_of P (get (get_body request) ''customer'')))) \<and>
       (has_key (get_body request) ''items'' \<longrightarrow>
          (\<exists>its. its \<noteq> [] \<and> get (get_body request) ''items'' = JList its \<and>
             validate_items P (index_by_id P (seq data ''products'')) [] its =
               Inr (map (normalized P) its) \<and>
             map_of d' ''items'' = Some (JList (map (normalized P) its)))) \<and>
       index_by_id P (seq data ''orders'') oid = Some j \<and>
       seq data ''orders'' ! j = JObj d \<and>
       i \<le> j \<and>
       (\<exists>di. seq data ''orders'' ! i = JObj di \<and> str_of P (get di ''id'') = oid) \<and>
       (\<forall>m<i. \<exists>dm. seq data ''orders'' ! m = JObj dm \<and> str_of P (get dm ''id'') \<noteq> oid) \<and>
       fs' = save_db (AList.update ''orders''
                        (JList ((seq data ''orders'')[j := JObj d', i := JObj d'])) data)"
  using update_order_stored[OF u0[unfolded ok]]
proof (elim exE conjE)
  fix data j d d' i di
  assume l: "load_db fs = (fs, Inr data)"
    and ix: "index_by_id P (seq data ''orders'') oid = Some j"
    and d: "seq data ''orders'' ! j = JObj d"
    and f: "order_fields P (get_body request) data j = Inr ((seq data ''orders'')[j := JObj d'])"
    and r': "r' = JObj d'"
    and i1: "i \<le> j"
    and i2a: "seq data ''orders'' ! i = JObj di"
    and i2b: "str_of P (get di ''id'') = oid"
    and i3: "\<forall>m<i. \<exists>dm. seq data ''orders'' ! m = JObj dm \<and> str_of P (get dm ''id'') \<noteq> oid"
    and fs': "fs' = save_db (AList.update ''orders''
                      (JList ((seq data ''orders'')[j := JObj d', i := JObj d'])) data)"
    and g: "get_order P oid fs = (fs, Inr (200, JObj d))"
    and g': "get_order P oid fs' = (fs', Inr (200, JObj d'))"
  from ok r' have res': "res = Inr (200, JObj d')" by simp
  from i2a i2b have i2: "\<exists>di. seq data ''orders'' ! i = JObj di \<and> str_of P (get di ''id'') = oid"
    by (intro exI conjI)
  from index_by_id_SomeD[OF ix] have j: "j < length (seq data ''orders'')" by (rule conjunct1)
  from order_fields_Inr[OF f j d] show ?thesis
  proof (elim exE conjE)
    fix d2
    assume e: "(seq data ''orders'')[j := JObj d'] = (seq data ''orders'')[j := JObj d2]"
      and keep: "\<forall>k. (k \<noteq> ''status'' \<and> k \<noteq> ''customer'' \<and> k \<noteq> ''items'') \<or>
            \<not> has_key (get_body request) k \<longrightarrow> map_of d2 k = map_of d k"
      and st: "has_key (get_body request) ''status'' \<longrightarrow>
          map_of d2 ''status'' = Some (JStr (str_of P (get (get_body request) ''status'')))"
      and cu: "has_key (get_body request) ''customer'' \<longrightarrow>
          map_of d2 ''customer'' = Some (JStr (str_of P (get (get_body request) ''customer'')))"
      and it: "has_key (get_body request) ''items'' \<longrightarrow>
       (\<exists>its new. its \<noteq> [] \<and> get (get_body request) ''items'' = JList its \<and>
          validate_items P (index_by_id P (seq data ''products'')) [] its = Inr new \<and>
          map_of d2 ''items'' = Some (JList new))"
    from e have "(seq data ''orders'')[j := JObj d'] ! j = (seq data ''orders'')[j := JObj d2] ! j"
      by (rule arg_cong)
    with j have dd: "d2 = d'" by simp
    have it': "has_key (get_body request) ''items'' \<longrightarrow>
          (\<exists>its. its \<noteq> [] \<and> get (get_body request) ''items'' = JList its \<and>
             validate_items P (index_by_id P (seq data ''products'')) [] its =
               Inr (map (normalized P) its) \<and>
             map_of d' ''items'' = Some (JList (map (normalized P) its)))"
    proof
      assume "has_key (get_body request) ''items''"
      with it have "\<exists>its new. its \<noteq> [] \<and> get (get_body request) ''items'' = JList its \<and>
          validate_items P (index_by_id P (seq data ''products'')) [] its = Inr new \<and>
          map_of d2 ''items'' = Some (JList new)" by (rule mp)
      then show "\<exists>its. its \<noteq> [] \<and> get (get_body request) ''items'' = JList its \<and>
             validate_items P (index_by_id P (seq data ''products'')) [] its =
               Inr (map (normalized P) its) \<and>
             map_of d' ''items'' = Some (JList (map (normalized P) its))"
      proof (elim exE conjE)
        fix its new
        assume a: "its \<noteq> []" "get (get_body request) ''items'' = JList its"
          "validate_items P (index_by_id P (seq data ''products'')) [] its = Inr new"
          "map_of d2 ''items'' = Some (JList new)"
        from validate_items_normalized[OF a(3)] have n: "new = map (normalized P) its" by simp
        from a(3) n have v: "validate_items P (index_by_id P (seq data ''products'')) [] its =
               Inr (map (normalized P) its)" by simp
        from a(4) n dd have m: "map_of d' ''items'' = Some (JList (map (normalized P) its))"
          by simp
        from a(1,2) v m show ?thesis by (intro exI conjI)
      qed
    qed
    from keep dd have keep': "\<forall>k. (k \<noteq> ''status'' \<and> k \<noteq> ''customer'' \<and> k \<noteq> ''items'') \<or>
            \<not> has_key (get_body request) k \<longrightarrow> map_of d' k = map_of d k"
      by (simp only:)
    from st dd have st': "has_key (get_body request) ''status'' \<longrightarrow>
          map_of d' ''status'' = Some (JStr (str_of P (get (get_body request) ''status'')))"
      by (simp only:)
    from cu dd have cu': "has_key (get_body request) ''customer'' \<longrightarrow>
          map_of d' ''customer'' = Some (JStr (str_of P (get (get_body request) ''customer'')))"
      by (simp only:)
    show ?thesis
      apply (rule exI[of _ data], rule exI[of _ j], rule exI[of _ d], rule exI[of _ d'],
          rule exI[of _ i])
      apply (intro conjI)
      apply (rule res' l g g' keep' st' cu' it' ix d i1 i2 i3 fs')+
      done
  qed
qed

subsection \<open>The items of a request\<close>

lemma create_order_items:
  assumes s: "strip P [] = []" and c: "create_order P E request fs = (fs', Inr (201, r))"
  shows "\<exists>fs1 data its d. load_db fs = (fs1, Inr data) \<and>
          get (get_body request) ''items'' = JList its \<and>
          (\<forall>it \<in> set its. spec_item_ok P (index_by_id P (seq data ''products'')) it) \<and>
          r = JObj d \<and> map_of d ''items'' = Some (JList (map (normalized P) its)) \<and>
          fs' = save_db (AList.update ''orders'' (JList (seq data ''orders'' @ [r])) data)"
  using create_order_created[OF c]
proof (elim exE conjE)
  fix fs1 data its items
  assume l: "load_db fs = (fs1, Inr data)"
    and its: "get (get_body request) ''items'' = JList its"
    and v: "validate_items P (index_by_id P (seq data ''products'')) [] its = Inr items"
    and r: "r = new_order P E (get_body request) items"
    and fs': "fs' = save_db (AList.update ''orders'' (JList (seq data ''orders'' @ [r])) data)"
  from validate_items_Inr[OF s v]
  have ok: "\<forall>it \<in> set its. spec_item_ok P (index_by_id P (seq data ''products'')) it"
    and items: "items = map (normalized P) its" by simp_all
  define d where "d = [(''id'', JStr (chosen_id P E ''o-'' (get_body request))),
           (''customer'', JStr (str_of P (get (get_body request) ''customer''))),
           (''items'', JList items),
           (''status'', JStr (str_of P (get_default (get_body request) ''status'' (JStr ''NEW'')))),
           (''createdAt'', JStr (now_iso E))]"
  have rd: "r = JObj d" by (simp add: r new_order_def d_def)
  have m: "map_of d ''items'' = Some (JList (map (normalized P) its))"
    by (simp add: d_def items)
  show ?thesis
    apply (rule exI[of _ fs1], rule exI[of _ data], rule exI[of _ its], rule exI[of _ d])
    apply (intro conjI)
    apply (rule l its ok rd m fs')+
    done
qed

lemma create_order_bad_item:
  assumes s: "strip P [] = []" and l: "load_db fs = (fs1, Inr data)"
    and its: "get (get_body request) ''items'' = JList its"
    and bad: "\<exists>it \<in> set its. \<not> spec_item_ok P (index_by_id P (seq data ''products'')) it"
  shows "\<exists>msg fs'. create_order P E request fs = (fs', Inr (bad_request msg)) \<and>
          (fs' = fs \<or> fs' = fs1) \<and> load_db fs' = (fs1, Inr data)"
proof (cases "truthy P (get (get_body request) ''customer'')")
  case False
  then have "\<not> (truthy P (get (get_body request) ''customer'') \<and>
              (\<exists>i is. get (get_body request) ''items'' = JList (i # is)))" by simp
  from create_order_early[OF this, of E fs] obtain msg where
    "create_order P E request fs = (fs, Inr (bad_request msg))" by (elim exE)
  with l show ?thesis by (intro exI[of _ msg] exI[of _ fs]) simp
next
  case True
  from bad have ne: "its \<noteq> []" by auto
  from validate_items_rejects[OF s bad, of "[]"] obtain msg where
    v: "validate_items P (index_by_id P (seq data ''products'')) [] its = Inl (bad_request msg)"
    by (elim exE)
  from create_order_run[OF l True its ne, of E] v
  have c: "create_order P E request fs = (fs1, Inr (bad_request msg))" by simp
  from load_db_idem[of fs] l have "load_db fs1 = (fs1, Inr data)" by simp
  with c show ?thesis by (intro exI[of _ msg] exI[of _ fs1]) simp
qed

lemma update_order_items:
  assumes s: "strip P [] = []" and u: "update_order P oid request fs = (fs', Inr (200, r))"
    and hk: "has_key (get_body request) ''items''"
  shows "\<exists>data its d. load_db fs = (fs, Inr data) \<and>
          get (get_body request) ''items'' = JList its \<and>
          (\<forall>it \<in> set its. spec_item_ok P (index_by_id P (seq data ''products'')) it) \<and>
          r = JObj d \<and> map_of d ''items'' = Some (JList (map (normalized P) its)) \<and>
          get_order P oid fs' = (fs', Inr (200, r))"
  using update_order_fields[OF u refl]
proof (elim exE conjE)
  fix data j d d' i
  assume r: "Inr (200, r) = (Inr (200, JObj d') :: py_error + nat \<times> 'a json)"
    and l: "load_db fs = (fs, Inr data)"
    and g': "get_order P oid fs' = (fs', Inr (200, JObj d'))"
    and it: "has_key (get_body request) ''items'' \<longrightarrow>
          (\<exists>its. its \<noteq> [] \<and> get (get_body request) ''items'' = JList its \<and>
             validate_items P (index_by_id P (seq data ''products'')) [] its =
               Inr (map (normalized P) its) \<and>
             map_of d' ''items'' = Some (JList (map (normalized P) its)))"
  from r have rd: "r = JObj d'" by simp
  from it hk have "\<exists>its. its \<noteq> [] \<and> get (get_body request) ''items'' = JList its \<and>
             validate_items P (index_by_id P (seq data ''products'')) [] its =
               Inr (map (normalized P) its) \<and>
             map_of d' ''items'' = Some (JList (map (normalized P) its))" by (rule mp)
  then show ?thesis
  proof (elim exE conjE)
    fix its
    assume its: "get (get_body request) ''items'' = JList its"
      and v: "validate_items P (index_by_id P (seq data ''products'')) [] its =
               Inr (map (normalized P) its)"
      and m: "map_of d' ''items'' = Some (JList (map (normalized P) its))"
    from validate_items_Inr[OF s v]
    have ok: "\<forall>it \<in> set its. spec_item_ok P (index_by_id P (seq data ''products'')) it"
      by simp
    from g' rd have g: "get_order P oid fs' = (fs', Inr (200, r))" by simp
    show ?thesis
      apply (rule exI[of _ data], rule exI[of _ its], rule exI[of _ d'])
      apply (intro conjI)
      apply (rule l its ok rd m g)+
      done
  qed
qed

lemma update_order_bad_item:
  assumes s: "strip P [] = []" and l: "load_db fs = (fs1, Inr data)"
    and its: "get (get_body request) ''items'' = JList its"
    and bad: "\<exists>it \<in> set its. \<not> spec_item_ok P (index_by_id P (seq data ''products'')) it"
  shows "(index_by_id P (seq data ''orders'') oid \<noteq> None \<longrightarrow>
           (\<exists>msg. update_order P oid request fs = (fs, Inr (bad_request msg)))) \<and>
         (index_by_id P (seq data ''orders'') oid = None \<longrightarrow>
           update_order P oid request fs = (fs1, Inr (not_found ''order not found'')))"
proof (intro conjI impI)
  assume i: "index_by_id P (seq data ''orders'') oid \<noteq> None"
  then obtain j where j: "index_by_id P (seq data ''orders'') oid = Some j" by auto
  from index_nonempty_unchanged[OF l i] have fs1: "fs1 = fs" .
  from order_fields_rejects[OF s its bad, of j] obtain msg where
    f: "order_fields P (get_body request) data j = Inl (bad_request msg)" by (elim exE)
  from update_order_run[OF l j, of request] f fs1
  have "update_order P oid request fs = (fs, Inr (bad_request msg))" by simp
  then show "\<exists>msg. update_order P oid request fs = (fs, Inr (bad_request msg))" by (rule exI)
next
  assume "index_by_id P (seq data ''orders'') oid = None"
  with l show "update_order P oid request fs = (fs1, Inr (not_found ''order not found''))"
    by (rule update_order_missing)
qed

lemma orders_load_error:
  assumes l: "load_db fs = (fs1, Inl e)"
  shows "fs1 = fs \<and> update_order P oid request fs = (fs, Inl e) \<and>
         (create_order P E request fs = (fs, Inl e) \<or>
          (\<exists>msg. create_order P E request fs = (fs, Inr (bad_request msg))))"
proof -
  from load_db_error_unchanged[OF l] have fs1: "fs1 = fs" .
  from update_order_load_error[OF l, of P oid request] fs1
  have u: "update_order P oid request fs = (fs, Inl e)" by simp
  have c: "create_order P E request fs = (fs, Inl e) \<or>
          (\<exists>msg. create_order P E request fs = (fs, Inr (bad_request msg)))"
  proof (cases "truthy P (get (get_body request) ''customer'') \<and>
              (\<exists>i is. get (get_body request) ''items'' = JList (i # is))")
    case False
    from create_order_early[OF this, of E fs] show ?thesis by (rule disjI2)
  next
    case True
    then obtain i "is" where its: "get (get_body request) ''items'' = JList (i # is)" by auto
    from create_order_load_error_exact[OF l conjunct1[OF True] its, of E] fs1
    have "create_order P E request fs = (fs, Inl e)" by simp
    then show ?thesis by (rule disjI1)
  qed
  from fs1 u c show ?thesis by (intro conjI)
qed

section \<open>Verified properties\<close>

subsection \<open>Loading the document\<close>

text \<open>
  C5, as the code has it.  A file whose text parses to a JSON value that is not an
  object is neither initialised nor repaired: \<^verbatim>\<open>load_db\<close> raises \<^verbatim>\<open>TypeError\<close>
  on it, although the text is well-formed JSON.  Here the text is \<^verbatim>\<open>[]\<close>.
\<close>

theorem load_db_toplevel_list_raises:
  "load_db (Some (Parsed (JList []))) =
     (Some (Parsed (JList [])), Inl TypeError :: py_error + (string \<times> int json) list)"
  by (simp add: load_db_def ensure_db_exists_def read_json_def)

text \<open>
  C5, amended.  An absent or blank file is initialised to the empty document, which is
  returned.  A file that parses to an object is left as it is; the document returned
  has a list under \<^verbatim>\<open>products\<close> and under \<^verbatim>\<open>orders\<close>, the one of the file
  where the file has a list there and the empty list otherwise, and every other key
  as in the file.  Malformed text raises \<^verbatim>\<open>JSONDecodeError\<close>, and text that parses
  to anything but an object raises \<^verbatim>\<open>TypeError\<close>; the file is not touched in either
  case.  Whenever \<^verbatim>\<open>load_db\<close> returns, both fields are lists.
\<close>

theorem load_db_document:
  "(fs = None \<or> fs = Some Blank \<longrightarrow>
      load_db fs = (Some (Parsed (JObj empty_db)), Inr empty_db)) \<and>
   (\<forall>d. fs = Some (Parsed (JObj d)) \<longrightarrow>
      (\<exists>data. load_db fs = (fs, Inr data) \<and>
         (\<forall>k. map_of data k =
            (if k = ''products'' \<or> k = ''orders''
             then (case map_of d k of Some (JList xs) \<Rightarrow> Some (JList xs) | _ \<Rightarrow> Some (JList []))
             else map_of d k)))) \<and>
   (fs = Some Malformed \<longrightarrow> load_db fs = (fs, Inl JSONDecodeError)) \<and>
   (\<forall>v. fs = Some (Parsed v) \<and> (\<forall>d. v \<noteq> JObj d) \<longrightarrow> load_db fs = (fs, Inl TypeError)) \<and>
   (\<forall>fs1 data. load_db fs = (fs1, Inr data) \<longrightarrow>
      (\<exists>ps os. map_of data ''products'' = Some (JList ps) \<and>
               map_of data ''orders'' = Some (JList os)))"
proof (intro conjI allI impI)
  assume "fs = None \<or> fs = Some Blank"
  then show "load_db fs = (Some (Parsed (JObj empty_db)), Inr empty_db)"
    by (rule load_db_fresh)
next
  fix d assume fs: "fs = Some (Parsed (JObj d))"
  have "load_db fs = (fs, Inr (repair ''orders'' (repair ''products'' d)))"
    by (simp add: fs load_db_def ensure_db_exists_def read_json_def)
  moreover have "\<forall>k. map_of (repair ''orders'' (repair ''products'' d)) k =
            (if k = ''products'' \<or> k = ''orders''
             then (case map_of d k of Some (JList xs) \<Rightarrow> Some (JList xs) | _ \<Rightarrow> Some (JList []))
             else map_of d k)"
    by (simp add: map_of_repair)
  ultimately show "\<exists>data. load_db fs = (fs, Inr data) \<and>
         (\<forall>k. map_of data k =
            (if k = ''products'' \<or> k = ''orders''
             then (case map_of d k of Some (JList xs) \<Rightarrow> Some (JList xs) | _ \<Rightarrow> Some (JList []))
             else map_of d k))"
    by blast
next
  assume "fs = Some Malformed"
  then show "load_db fs = (fs, Inl JSONDecodeError)"
    by (simp add: load_db_def ensure_db_exists_def read_json_def)
next
  fix v assume "fs = Some (Parsed v) \<and> (\<forall>d. v \<noteq> JObj d)"
  then show "load_db fs = (fs, Inl TypeError)"
    by (cases v) (simp_all add: load_db_def ensure_db_exists_def read_json_def)
next
  fix fs1 data assume "load_db fs = (fs1, Inr data)"
  then show "\<exists>ps os. map_of data ''products'' = Some (JList ps) \<and>
               map_of data ''orders'' = Some (JList os)"
    by (rule load_db_sequences)
qed

theorem load_db_document_witness:
  "load_db (None :: int db_file) = (Some (Parsed (JObj empty_db)), Inr empty_db) \<and>
   load_db (Some Malformed :: int db_file) = (Some Malformed, Inl JSONDecodeError) \<and>
   load_db (Some (Parsed (JInt 5)) :: int db_file) = (Some (Parsed (JInt 5)), Inl TypeError) \<and>
   (\<exists>data. load_db (Some (Parsed (JObj [(''products'', JInt 3)])) :: int db_file)
              = (Some (Parsed (JObj [(''products'', JInt 3)])), Inr data) \<and>
           map_of data ''products'' = Some (JList []) \<and> map_of data ''orders'' = Some (JList []))"
proof -
  have a: "load_db (None :: int db_file) = (Some (Parsed (JObj empty_db)), Inr empty_db)"
    using load_db_document[of "None :: int db_file"] by simp
  have b: "load_db (Some Malformed :: int db_file) = (Some Malformed, Inl JSONDecodeError)"
    using load_db_document[of "Some Malformed :: int db_file"] by simp
  have c: "load_db (Some (Parsed (JInt 5)) :: int db_file) = (Some (Parsed (JInt 5)), Inl TypeError)"
    using load_db_document[of "Some (Parsed (JInt 5)) :: int db_file"] by simp
  from load_db_document[of "Some (Parsed (JObj [(''products'', JInt 3)])) :: int db_file"]
  obtain data where d: "load_db (Some (Parsed (JObj [(''products'', JInt 3)])) :: int db_file)
        = (Some (Parsed (JObj [(''products'', JInt 3)])), Inr data)"
    and m: "\<forall>k. map_of data k =
            (if k = ''products'' \<or> k = ''orders''
             then (case map_of [(''products'', JInt 3)] k of Some (JList xs) \<Rightarrow> Some (JList xs) | _ \<Rightarrow> Some (JList []))
             else map_of [(''products'', JInt 3)] k)"
    by blast
  from m have "map_of data ''products'' = Some (JList [])" "map_of data ''orders'' = Some (JList [])"
    by simp_all
  with a b c d show ?thesis by blast
qed

subsection \<open>Reads\<close>

text \<open>
  C9, as the code has it.  A read request calls \<^verbatim>\<open>load_db\<close>, hence
  \<^verbatim>\<open>ensure_db_exists\<close>, which writes the file when it is absent: after one
  \<^verbatim>\<open>GET /products\<close> on an absent file there is a file.
\<close>

theorem get_creates_absent_file:
  "run_gets example_ops [ListProducts] None \<noteq> None"
  by (simp add: list_products_def load_db_def ensure_db_exists_def read_json_def)

text \<open>
  C9, amended.  After any non-empty sequence of read requests the file is what
  \<^verbatim>\<open>ensure_db_exists\<close> makes of the file before it: the same file when it existed
  with text that is not blank, the empty document when it was absent or blank.  In
  every case \<^verbatim>\<open>load_db\<close> returns afterwards what it returned before.
\<close>

theorem run_gets_file:
  "run_gets P gs fs = (if gs = [] then fs else ensure_db_exists fs) \<and>
   snd (load_db (run_gets P gs fs)) = snd (load_db fs)"
proof (cases gs)
  case Nil
  then show ?thesis by simp
next
  case (Cons g gs')
  then show ?thesis by (simp only: run_gets_Cons load_db_ensure) simp
qed

theorem run_gets_file_witness:
  "run_gets example_ops [GetProduct ''p1'', ListOrders] example_db = example_db \<and>
   run_gets example_ops [GetOrder ''o1'', ListProducts] (Some Blank) = Some (Parsed (JObj empty_db))"
  using run_gets_file[of example_ops "[GetProduct ''p1'', ListOrders]" example_db]
        run_gets_file[of example_ops "[GetOrder ''o1'', ListProducts]" "Some Blank"]
  by (simp add: ensure_db_exists_def example_db_def)

subsection \<open>Deleting a product\<close>

text \<open>
  C1.  When \<^verbatim>\<open>delete_product\<close> answers 200, the file it leaves has no product whose
  id is \<open>pid\<close>: a later \<^verbatim>\<open>GET /products/pid\<close> answers 404, and every product listed
  has another id.  Every order is still there, and in every order whose \<^verbatim>\<open>items\<close> is
  a list, no item has the product id \<open>pid\<close>.  An order all of whose items referred to
  \<open>pid\<close> is kept with the empty list of items.
\<close>

theorem delete_product_cascade:
  assumes "delete_product P pid fs = (fs', Inr (200, body))"
  shows "get_product P pid fs' = (fs', Inr (not_found ''product not found'')) \<and>
    (\<exists>ps os os'.
       list_products fs' = (fs', Inr (200, JList ps)) \<and>
       (\<forall>p \<in> set ps. \<exists>d. p = JObj d \<and> str_of P (get d ''id'') \<noteq> pid) \<and>
       list_orders fs = (fs, Inr (200, JList os)) \<and>
       list_orders fs' = (fs', Inr (200, JList os')) \<and>
       length os' = length os \<and>
       (\<forall>ord \<in> set os'. \<forall>d its. ord = JObj d \<and> map_of d ''items'' = Some (JList its) \<longrightarrow>
          (\<forall>it \<in> set its. \<exists>e. it = JObj e \<and> str_of P (get e ''productId'') \<noteq> pid \<and>
                                get e ''productId'' \<noteq> JStr pid)) \<and>
       (\<forall>j < length os. \<forall>d its.
          os ! j = JObj d \<and> map_of d ''items'' = Some (JList its) \<and>
          (\<forall>it \<in> set its. \<exists>e. it = JObj e \<and> str_of P (get e ''productId'') = pid) \<longrightarrow>
          (\<exists>d'. os' ! j = JObj d' \<and> map_of d' ''items'' = Some (JList []))))"
proof -
  from delete_product_ok[OF assms] obtain data ps' os' where
    l: "load_db fs = (fs, Inr data)" and
    w: "without P ''id'' pid (seq data ''products'') = Inr ps'" and
    p: "prune_orders P pid (seq data ''orders'') = Inr os'" and
    fs': "fs' = save_db (AList.update ''orders'' (JList os')
                           (AList.update ''products'' (JList ps') data))"
    by blast
  define data' where "data' = AList.update ''orders'' (JList os')
                           (AList.update ''products'' (JList ps') data)"
  have mp: "map_of data' ''products'' = Some (JList ps')"
    and mo: "map_of data' ''orders'' = Some (JList os')"
    by (simp_all add: data'_def update_conv')
  have l': "load_db fs' = (fs', Inr data')"
    using load_db_save_db[OF mp mo] fs' by (simp add: data'_def)
  have sp: "seq data' ''products'' = ps'" and so: "seq data' ''orders'' = os'"
    using mp mo by (simp_all add: seq_def)
  have kept: "\<forall>p \<in> set ps'. \<exists>d. p = JObj d \<and> str_of P (get d ''id'') \<noteq> pid"
    using without_kept[OF w] by blast
  then have "\<forall>x \<in> set ps'. \<not> indexed P pid x"
    by (auto simp: indexed_def)
  then have "index_by_id P ps' pid = None"
    by (simp add: index_by_id_None_iff)
  then have g: "get_product P pid fs' = (fs', Inr (not_found ''product not found''))"
    by (simp add: get_product_def l' sp)
  have lp: "list_products fs' = (fs', Inr (200, JList ps'))"
    by (simp add: list_products_def l' sp)
  have lo: "list_orders fs = (fs, Inr (200, JList (seq data ''orders'')))"
    by (simp add: list_orders_def l)
  have lo': "list_orders fs' = (fs', Inr (200, JList os'))"
    by (simp add: list_orders_def l' so)
  note pn = prune_orders_nth[OF p]
  have items: "\<forall>ord \<in> set os'. \<forall>d its. ord = JObj d \<and> map_of d ''items'' = Some (JList its) \<longrightarrow>
          (\<forall>it \<in> set its. \<exists>e. it = JObj e \<and> str_of P (get e ''productId'') \<noteq> pid \<and>
                                get e ''productId'' \<noteq> JStr pid)"
  proof (intro ballI allI impI)
    fix ord d its it
    assume ord: "ord \<in> set os'" and d: "ord = JObj d \<and> map_of d ''items'' = Some (JList its)"
      and it: "it \<in> set its"
    from ord obtain j where j: "j < length os'" "os' ! j = ord"
      by (auto simp: in_set_conv_nth)
    with pn have "prune_order P pid (seq data ''orders'' ! j) = Inr ord" by auto
    from prune_order_items[OF this _ _ it] d
    obtain e where e: "it = JObj e" "str_of P (get e ''productId'') \<noteq> pid" by blast
    then have "get e ''productId'' \<noteq> JStr pid" by (auto simp: str_of_def)
    with e show "\<exists>e. it = JObj e \<and> str_of P (get e ''productId'') \<noteq> pid \<and>
                                get e ''productId'' \<noteq> JStr pid" by blast
  qed
  have emptied: "\<forall>j < length (seq data ''orders''). \<forall>d its.
          seq data ''orders'' ! j = JObj d \<and> map_of d ''items'' = Some (JList its) \<and>
          (\<forall>it \<in> set its. \<exists>e. it = JObj e \<and> str_of P (get e ''productId'') = pid) \<longrightarrow>
          (\<exists>d'. os' ! j = JObj d' \<and> map_of d' ''items'' = Some (JList []))"
  proof (intro allI impI)
    fix j d its
    assume j: "j < length (seq data ''orders'')"
      and h: "seq data ''orders'' ! j = JObj d \<and> map_of d ''items'' = Some (JList its) \<and>
          (\<forall>it \<in> set its. \<exists>e. it = JObj e \<and> str_of P (get e ''productId'') = pid)"
    from pn j h have "prune_order P pid (JObj d) = Inr (os' ! j)" by auto
    from prune_order_emptied[OF this] h
    show "\<exists>d'. os' ! j = JObj d' \<and> map_of d' ''items'' = Some (JList [])" by blast
  qed
  from pn have len: "length os' = length (seq data ''orders'')" by simp
  from lp kept lo lo' len items emptied
  have "\<exists>ps os os'.
       list_products fs' = (fs', Inr (200, JList ps)) \<and>
       (\<forall>p \<in> set ps. \<exists>d. p = JObj d \<and> str_of P (get d ''id'') \<noteq> pid) \<and>
       list_orders fs = (fs, Inr (200, JList os)) \<and>
       list_orders fs' = (fs', Inr (200, JList os')) \<and>
       length os' = length os \<and>
       (\<forall>ord \<in> set os'. \<forall>d its. ord = JObj d \<and> map_of d ''items'' = Some (JList its) \<longrightarrow>
          (\<forall>it \<in> set its. \<exists>e. it = JObj e \<and> str_of P (get e ''productId'') \<noteq> pid \<and>
                                get e ''productId'' \<noteq> JStr pid)) \<and>
       (\<forall>j < length os. \<forall>d its.
          os ! j = JObj d \<and> map_of d ''items'' = Some (JList its) \<and>
          (\<forall>it \<in> set its. \<exists>e. it = JObj e \<and> str_of P (get e ''productId'') = pid) \<longrightarrow>
          (\<exists>d'. os' ! j = JObj d' \<and> map_of d' ''items'' = Some (JList [])))"
    by blast
  with g show ?thesis by blast
qed

text \<open>
  The example document has one product, \<^verbatim>\<open>p1\<close>, and one order, whose only item is
  of \<^verbatim>\<open>p1\<close>.  Deleting \<^verbatim>\<open>p1\<close> leaves no product and the order with no item.
\<close>

theorem delete_product_cascade_witness:
  "delete_product example_ops ''p1'' example_db =
     (Some (Parsed (JObj [(''products'', JList []),
        (''orders'', JList [JObj [(''id'', JStr ''o1''), (''customer'', JStr ''Fatima''),
           (''items'', JList []),
           (''status'', JStr ''NEW''), (''createdAt'', JStr ''2023-12-31T00:00:01Z'')]])])),
      Inr (200, JObj [(''deleted'', JStr ''p1'')])) \<and>
   snd (get_product example_ops ''p1'' (fst (delete_product example_ops ''p1'' example_db))) =
     Inr (not_found ''product not found'')"
proof -
  have h: "delete_product example_ops ''p1'' example_db =
     (Some (Parsed (JObj [(''products'', JList []),
        (''orders'', JList [JObj [(''id'', JStr ''o1''), (''customer'', JStr ''Fatima''),
           (''items'', JList []),
           (''status'', JStr ''NEW''), (''createdAt'', JStr ''2023-12-31T00:00:01Z'')]])])),
      Inr (200, JObj [(''deleted'', JStr ''p1'')]))"
    by (simp add: delete_product_def load_db_def ensure_db_exists_def read_json_def repair_def
        example_db_def example_product_def example_order_def seq_def Let_def prune_order_def
        get_def get_default_def str_of_def save_db_def)
  from delete_product_cascade[OF h] h show ?thesis
    by simp
qed

subsection \<open>Creating, then fetching\<close>

text \<open>
  C7.  When \<^verbatim>\<open>create_product\<close> answers 201 with a record, the record is an object
  with a string \<^verbatim>\<open>id\<close>, and \<^verbatim>\<open>get_product\<close> for that id on the file just written
  answers 200 with the same record.  The same holds of \<^verbatim>\<open>create_order\<close> and
  \<^verbatim>\<open>get_order\<close>.
\<close>

theorem create_then_get:
  "(create_product P E request fs = (fs', Inr (201, r)) \<longrightarrow>
      (\<exists>d pid. r = JObj d \<and> map_of d ''id'' = Some (JStr pid) \<and>
         get_product P pid fs' = (fs', Inr (200, r)))) \<and>
   (create_order P E request fs = (fs', Inr (201, r)) \<longrightarrow>
      (\<exists>d oid. r = JObj d \<and> map_of d ''id'' = Some (JStr oid) \<and>
         get_order P oid fs' = (fs', Inr (200, r))))"
  using create_then_get_product[of P E request fs fs' r]
        create_then_get_order[of P E request fs fs' r]
  by blast

text \<open>
  On the example document: a product created without an id, and an order created with
  the id \<^verbatim>\<open>o2\<close> for two units of \<^verbatim>\<open>p1\<close>.
\<close>

theorem create_then_get_witness:
  "create_product example_ops example_env
      (JObj [(''name'', JStr ''Pen''), (''price'', JInt 3)]) example_db =
     (Some (Parsed (JObj [(''products'', JList [example_product,
          JObj [(''id'', JStr ''p-01234567''), (''name'', JStr ''Pen''), (''price'', JFloat 3),
                (''createdAt'', JStr ''2024-01-01T00:00:00Z'')]]),
        (''orders'', JList [example_order])])),
      Inr (201, JObj [(''id'', JStr ''p-01234567''), (''name'', JStr ''Pen''), (''price'', JFloat 3),
                (''createdAt'', JStr ''2024-01-01T00:00:00Z'')])) \<and>
   snd (get_product example_ops ''p-01234567''
         (fst (create_product example_ops example_env
                (JObj [(''name'', JStr ''Pen''), (''price'', JInt 3)]) example_db))) =
     Inr (200, JObj [(''id'', JStr ''p-01234567''), (''name'', JStr ''Pen''), (''price'', JFloat 3),
                (''createdAt'', JStr ''2024-01-01T00:00:00Z'')]) \<and>
   create_order example_ops example_env
      (JObj [(''id'', JStr ''o2''), (''customer'', JStr ''Omar''),
             (''items'', JList [JObj [(''productId'', JStr '' p1 ''), (''qty'', JStr ''2'')]])])
      example_db =
     (Some (Parsed (JObj [(''products'', JList [example_product]),
        (''orders'', JList [example_order,
          JObj [(''id'', JStr ''o2''), (''customer'', JStr ''Omar''),
                (''items'', JList [JObj [(''productId'', JStr ''p1''), (''qty'', JInt 2)]]),
                (''status'', JStr ''NEW''), (''createdAt'', JStr ''2024-01-01T00:00:00Z'')]])])),
      Inr (201, JObj [(''id'', JStr ''o2''), (''customer'', JStr ''Omar''),
                (''items'', JList [JObj [(''productId'', JStr ''p1''), (''qty'', JInt 2)]]),
                (''status'', JStr ''NEW''), (''createdAt'', JStr ''2024-01-01T00:00:00Z'')])) \<and>
   snd (get_order example_ops ''o2''
         (fst (create_order example_ops example_env
      (JObj [(''id'', JStr ''o2''), (''customer'', JStr ''Omar''),
             (''items'', JList [JObj [(''productId'', JStr '' p1 ''), (''qty'', JStr ''2'')]])])
      example_db))) =
     Inr (200, JObj [(''id'', JStr ''o2''), (''customer'', JStr ''Omar''),
                (''items'', JList [JObj [(''productId'', JStr ''p1''), (''qty'', JInt 2)]]),
                (''status'', JStr ''NEW''), (''createdAt'', JStr ''2024-01-01T00:00:00Z'')])"
proof -
  have p: "create_product example_ops example_env
      (JObj [(''name'', JStr ''Pen''), (''price'', JInt 3)]) example_db =
     (Some (Parsed (JObj [(''products'', JList [example_product,
          JObj [(''id'', JStr ''p-01234567''), (''name'', JStr ''Pen''), (''price'', JFloat 3),
                (''createdAt'', JStr ''2024-01-01T00:00:00Z'')]]),
        (''orders'', JList [example_order])])),
      Inr (201, JObj [(''id'', JStr ''p-01234567''), (''name'', JStr ''Pen''), (''price'', JFloat 3),
                (''createdAt'', JStr ''2024-01-01T00:00:00Z'')]))"
    by (simp add: create_product_def get_body_def get_def get_default_def has_key_def str_of_def
        load_db_def ensure_db_exists_def read_json_def repair_def seq_def Let_def
        index_by_id_def save_db_def example_db_def example_product_def example_order_def
        example_ops_def example_env_def)
  have o: "create_order example_ops example_env
      (JObj [(''id'', JStr ''o2''), (''customer'', JStr ''Omar''),
             (''items'', JList [JObj [(''productId'', JStr '' p1 ''), (''qty'', JStr ''2'')]])])
      example_db =
     (Some (Parsed (JObj [(''products'', JList [example_product]),
        (''orders'', JList [example_order,
          JObj [(''id'', JStr ''o2''), (''customer'', JStr ''Omar''),
                (''items'', JList [JObj [(''productId'', JStr ''p1''), (''qty'', JInt 2)]]),
                (''status'', JStr ''NEW''), (''createdAt'', JStr ''2024-01-01T00:00:00Z'')]])])),
      Inr (201, JObj [(''id'', JStr ''o2''), (''customer'', JStr ''Omar''),
                (''items'', JList [JObj [(''productId'', JStr ''p1''), (''qty'', JInt 2)]]),
                (''status'', JStr ''NEW''), (''createdAt'', JStr ''2024-01-01T00:00:00Z'')]))"
    by (simp add: create_order_def get_body_def get_def get_default_def has_key_def str_of_def
        load_db_def ensure_db_exists_def read_json_def repair_def seq_def Let_def
        index_by_id_def save_db_def example_db_def example_product_def example_order_def
        example_ops_def example_env_def read_int_def strip_blanks_def)
  from create_then_get[THEN conjunct1, rule_format, OF p] p
  have gp: "snd (get_product example_ops ''p-01234567''
         (fst (create_product example_ops example_env
                (JObj [(''name'', JStr ''Pen''), (''price'', JInt 3)]) example_db))) =
     Inr (200, JObj [(''id'', JStr ''p-01234567''), (''name'', JStr ''Pen''), (''price'', JFloat 3),
                (''createdAt'', JStr ''2024-01-01T00:00:00Z'')])"
    by auto
  from create_then_get[THEN conjunct2, rule_format, OF o] o
  have go: "snd (get_order example_ops ''o2''
         (fst (create_order example_ops example_env
      (JObj [(''id'', JStr ''o2''), (''customer'', JStr ''Omar''),
             (''items'', JList [JObj [(''productId'', JStr '' p1 ''), (''qty'', JStr ''2'')]])])
      example_db))) =
     Inr (200, JObj [(''id'', JStr ''o2''), (''customer'', JStr ''Omar''),
                (''items'', JList [JObj [(''productId'', JStr ''p1''), (''qty'', JInt 2)]]),
                (''status'', JStr ''NEW''), (''createdAt'', JStr ''2024-01-01T00:00:00Z'')])"
    by auto
  from p gp o go show ?thesis by blast
qed

subsection \<open>A supplied id\<close>

text \<open>
  C4, as the code has it.  Both handlers take \<^verbatim>\<open>body.get("id") or\<close> a generated id,
  so an id that is falsy is dropped before the index is consulted.  The document here
  has a product whose id is the string \<^verbatim>\<open>0\<close>; a request that supplies the id \<^verbatim>\<open>0\<close>
  (a number, whose \<^verbatim>\<open>str\<close> is that string) is answered 201, and a second product is
  stored under a generated id.
\<close>

theorem zero_id_not_rejected:
  "str_of example_ops (JInt 0) = ''0'' \<and>
   index_by_id example_ops
     [JObj [(''id'', JStr ''0''), (''name'', JStr ''Ink''), (''price'', JFloat 1),
            (''createdAt'', JStr ''2023-12-31T00:00:00Z'')]] ''0'' = Some 0 \<and>
   create_product example_ops example_env
     (JObj [(''id'', JInt 0), (''name'', JStr ''Pen''), (''price'', JInt 3)])
     (Some (Parsed (JObj [(''products'', JList
        [JObj [(''id'', JStr ''0''), (''name'', JStr ''Ink''), (''price'', JFloat 1),
               (''createdAt'', JStr ''2023-12-31T00:00:00Z'')]]),
        (''orders'', JList [])]))) =
     (Some (Parsed (JObj [(''products'', JList
        [JObj [(''id'', JStr ''0''), (''name'', JStr ''Ink''), (''price'', JFloat 1),
               (''createdAt'', JStr ''2023-12-31T00:00:00Z'')],
         JObj [(''id'', JStr ''p-01234567''), (''name'', JStr ''Pen''), (''price'', JFloat 3),
               (''createdAt'', JStr ''2024-01-01T00:00:00Z'')]]),
        (''orders'', JList [])])),
      Inr (201, JObj [(''id'', JStr ''p-01234567''), (''name'', JStr ''Pen''), (''price'', JFloat 3),
               (''createdAt'', JStr ''2024-01-01T00:00:00Z'')]))"
  by (simp add: create_product_def get_body_def get_def get_default_def has_key_def str_of_def
      str_of_int_def digits.simps load_db_Parsed repair_def seq_def Let_def index_by_id_def
      save_db_def example_ops_def example_env_def)

text \<open>
  C4, amended.  Let the value under \<^verbatim>\<open>id\<close> be truthy and the document load.  If the
  \<^verbatim>\<open>str\<close> of the id is a key of the index of the collection, \<^verbatim>\<open>create_product\<close>
  and \<^verbatim>\<open>create_order\<close> answer 400 and the file is the file as it was.  If it is not,
  and the other fields pass validation, they answer 201 with a record whose \<^verbatim>\<open>id\<close>
  is that string, and the file written is the document loaded with that record appended
  to the collection.  Whenever they answer 201, the id was not in the index, the
  record has that id, and the file written is the document with the record appended.
\<close>

theorem supplied_id_used_or_rejected:
  assumes "truthy P (get (get_body request) ''id'')"
    and "load_db fs = (fs1, Inr data)"
  shows
   "(index_by_id P (seq data ''products'') (str_of P (get (get_body request) ''id'')) \<noteq> None \<longrightarrow>
       (\<exists>msg. create_product P E request fs = (fs, Inr (bad_request msg)))) \<and>
    (index_by_id P (seq data ''products'') (str_of P (get (get_body request) ''id'')) = None \<and>
     truthy P (get (get_body request) ''name'') \<and>
     py_float P (get (get_body request) ''price'') \<noteq> None \<longrightarrow>
       (\<exists>d. create_product P E request fs =
               (save_db (AList.update ''products'' (JList (seq data ''products'' @ [JObj d])) data),
                Inr (201, JObj d)) \<and>
             map_of d ''id'' = Some (JStr (str_of P (get (get_body request) ''id''))))) \<and>
    (\<forall>fs' r. create_product P E request fs = (fs', Inr (201, r)) \<longrightarrow>
       (\<exists>d. r = JObj d \<and> map_of d ''id'' = Some (JStr (str_of P (get (get_body request) ''id''))) \<and>
          index_by_id P (seq data ''products'') (str_of P (get (get_body request) ''id'')) = None \<and>
          fs' = save_db (AList.update ''products'' (JList (seq data ''products'' @ [r])) data))) \<and>
    (index_by_id P (seq data ''orders'') (str_of P (get (get_body request) ''id'')) \<noteq> None \<longrightarrow>
       (\<exists>msg. create_order P E request fs = (fs, Inr (bad_request msg)))) \<and>
    (index_by_id P (seq data ''orders'') (str_of P (get (get_body request) ''id'')) = None \<and>
     truthy P (get (get_body request) ''customer'') \<and>
     (\<exists>its items. its \<noteq> [] \<and> get (get_body request) ''items'' = JList its \<and>
        validate_items P (index_by_id P (seq data ''products'')) [] its = Inr items) \<longrightarrow>
       (\<exists>d. create_order P E request fs =
               (save_db (AList.update ''orders'' (JList (seq data ''orders'' @ [JObj d])) data),
                Inr (201, JObj d)) \<and>
             map_of d ''id'' = Some (JStr (str_of P (get (get_body request) ''id''))))) \<and>
    (\<forall>fs' r. create_order P E request fs = (fs', Inr (201, r)) \<longrightarrow>
       (\<exists>d. r = JObj d \<and> map_of d ''id'' = Some (JStr (str_of P (get (get_body request) ''id''))) \<and>
          index_by_id P (seq data ''orders'') (str_of P (get (get_body request) ''id'')) = None \<and>
          fs' = save_db (AList.update ''orders'' (JList (seq data ''orders'' @ [r])) data)))"
proof -
  let ?body = "get_body request"
  have cp: "chosen_id P E ''p-'' ?body = str_of P (get ?body ''id'')"
    and co: "chosen_id P E ''o-'' ?body = str_of P (get ?body ''id'')"
    using assms(1) by (simp_all add: chosen_id_truthy)
  have 1: "index_by_id P (seq data ''products'') (str_of P (get ?body ''id'')) \<noteq> None \<longrightarrow>
       (\<exists>msg. create_product P E request fs = (fs, Inr (bad_request msg)))"
    using create_product_duplicate[OF assms(2), of P E request] by (simp add: cp)
  have 2: "index_by_id P (seq data ''products'') (str_of P (get ?body ''id'')) = None \<and>
     truthy P (get ?body ''name'') \<and> py_float P (get ?body ''price'') \<noteq> None \<longrightarrow>
       (\<exists>d. create_product P E request fs =
               (save_db (AList.update ''products'' (JList (seq data ''products'' @ [JObj d])) data),
                Inr (201, JObj d)) \<and>
             map_of d ''id'' = Some (JStr (str_of P (get ?body ''id''))))"
    using create_product_fresh_file[OF assms(2), of P E request] by (auto simp: cp)
  have 3: "\<forall>fs' r. create_product P E request fs = (fs', Inr (201, r)) \<longrightarrow>
       (\<exists>d. r = JObj d \<and> map_of d ''id'' = Some (JStr (str_of P (get ?body ''id''))) \<and>
          index_by_id P (seq data ''products'') (str_of P (get ?body ''id'')) = None \<and>
          fs' = save_db (AList.update ''products'' (JList (seq data ''products'' @ [r])) data))"
    using create_product_created_file[OF _ assms(2), of P E request] by (simp add: cp)
  have 4: "index_by_id P (seq data ''orders'') (str_of P (get ?body ''id'')) \<noteq> None \<longrightarrow>
       (\<exists>msg. create_order P E request fs = (fs, Inr (bad_request msg)))"
    using create_order_duplicate[OF assms(2), of P E request] by (simp add: co)
  have 5: "index_by_id P (seq data ''orders'') (str_of P (get ?body ''id'')) = None \<and>
     truthy P (get ?body ''customer'') \<and>
     (\<exists>its items. its \<noteq> [] \<and> get ?body ''items'' = JList its \<and>
        validate_items P (index_by_id P (seq data ''products'')) [] its = Inr items) \<longrightarrow>
       (\<exists>d. create_order P E request fs =
               (save_db (AList.update ''orders'' (JList (seq data ''orders'' @ [JObj d])) data),
                Inr (201, JObj d)) \<and>
             map_of d ''id'' = Some (JStr (str_of P (get ?body ''id''))))"
    using create_order_fresh_file[OF assms(2), of P E request] by (auto simp: co)
  have 6: "\<forall>fs' r. create_order P E request fs = (fs', Inr (201, r)) \<longrightarrow>
       (\<exists>d. r = JObj d \<and> map_of d ''id'' = Some (JStr (str_of P (get ?body ''id''))) \<and>
          index_by_id P (seq data ''orders'') (str_of P (get ?body ''id'')) = None \<and>
          fs' = save_db (AList.update ''orders'' (JList (seq data ''orders'' @ [r])) data))"
    using create_order_created_file[OF _ assms(2), of P E request] by (simp add: co)
  from 1 2 3 4 5 6 show ?thesis by blast
qed


text \<open>
  On the example document the ids \<^verbatim>\<open>p1\<close> and \<^verbatim>\<open>o1\<close> are taken and \<^verbatim>\<open>p2\<close> and
  \<^verbatim>\<open>o2\<close> are free: requests with the former are answered 400 and leave the file as
  it was, requests with the latter are answered 201 and the record is appended.
\<close>

theorem supplied_id_used_or_rejected_witness:
  "truthy example_ops (get (get_body
      (JObj [(''id'', JStr ''p1''), (''name'', JStr ''Pen''), (''price'', JInt 3)])) ''id'') \<and>
   load_db example_db = (example_db,
      Inr [(''products'', JList [example_product]), (''orders'', JList [example_order])]) \<and>
   (\<exists>msg. create_product example_ops example_env
      (JObj [(''id'', JStr ''p1''), (''name'', JStr ''Pen''), (''price'', JInt 3)]) example_db
     = (example_db, Inr (bad_request msg))) \<and>
   create_product example_ops example_env
      (JObj [(''id'', JStr ''p2''), (''name'', JStr ''Pen''), (''price'', JInt 3)]) example_db
     = (Some (Parsed (JObj [(''products'', JList [example_product,
          JObj [(''id'', JStr ''p2''), (''name'', JStr ''Pen''), (''price'', JFloat 3),
                (''createdAt'', JStr ''2024-01-01T00:00:00Z'')]]),
        (''orders'', JList [example_order])])),
        Inr (201, JObj [(''id'', JStr ''p2''), (''name'', JStr ''Pen''), (''price'', JFloat 3),
                (''createdAt'', JStr ''2024-01-01T00:00:00Z'')])) \<and>
   (\<exists>msg. create_order example_ops example_env
      (JObj [(''id'', JStr ''o1''), (''customer'', JStr ''Omar''),
             (''items'', JList [JObj [(''productId'', JStr ''p1''), (''qty'', JInt 1)]])]) example_db
     = (example_db, Inr (bad_request msg))) \<and>
   create_order example_ops example_env
      (JObj [(''id'', JStr ''o2''), (''customer'', JStr ''Omar''),
             (''items'', JList [JObj [(''productId'', JStr ''p1''), (''qty'', JInt 1)]])]) example_db
     = (Some (Parsed (JObj [(''products'', JList [example_product]),
        (''orders'', JList [example_order,
          JObj [(''id'', JStr ''o2''), (''customer'', JStr ''Omar''),
                (''items'', JList [JObj [(''productId'', JStr ''p1''), (''qty'', JInt 1)]]),
                (''status'', JStr ''NEW''), (''createdAt'', JStr ''2024-01-01T00:00:00Z'')]])])),
        Inr (201, JObj [(''id'', JStr ''o2''), (''customer'', JStr ''Omar''),
                (''items'', JList [JObj [(''productId'', JStr ''p1''), (''qty'', JInt 1)]]),
                (''status'', JStr ''NEW''), (''createdAt'', JStr ''2024-01-01T00:00:00Z'')]))"
proof -
  let ?data = "[(''products'', JList [example_product]), (''orders'', JList [example_order])]"
  let ?p1 = "JObj [(''id'', JStr ''p1''), (''name'', JStr ''Pen''), (''price'', JInt 3)] :: int json"
  let ?p2 = "JObj [(''id'', JStr ''p2''), (''name'', JStr ''Pen''), (''price'', JInt 3)] :: int json"
  let ?o1 = "JObj [(''id'', JStr ''o1''), (''customer'', JStr ''Omar''),
             (''items'', JList [JObj [(''productId'', JStr ''p1''), (''qty'', JInt 1)]])] :: int json"
  let ?o2 = "JObj [(''id'', JStr ''o2''), (''customer'', JStr ''Omar''),
             (''items'', JList [JObj [(''productId'', JStr ''p1''), (''qty'', JInt 1)]])] :: int json"
  let ?its = "[JObj [(''productId'', JStr ''p1''), (''qty'', JInt 1)]] :: int json list"
  have l: "load_db example_db = (example_db, Inr ?data)"
    by (simp add: example_db_def load_db_Parsed repair_def)
  have sp: "seq ?data ''products'' = [example_product]" and so: "seq ?data ''orders'' = [example_order]"
    by (simp_all add: seq_def)
  have ip: "index_by_id example_ops [example_product] k = (if k = ''p1'' then Some 0 else None)" for k
    by (simp add: index_by_id_def example_product_def has_key_def get_def get_default_def str_of_def)
  have io: "index_by_id example_ops [example_order] k = (if k = ''o1'' then Some 0 else None)" for k
    by (simp add: index_by_id_def example_order_def has_key_def get_def get_default_def str_of_def)
  have g: "get (get_body ?p1) ''id'' = JStr ''p1''" "get (get_body ?p2) ''id'' = JStr ''p2''"
    "get (get_body ?o1) ''id'' = JStr ''o1''" "get (get_body ?o2) ''id'' = JStr ''o2''"
    "get (get_body ?p2) ''name'' = JStr ''Pen''" "get (get_body ?p2) ''price'' = JInt 3"
    "get (get_body ?o2) ''customer'' = JStr ''Omar''" "get (get_body ?o2) ''items'' = JList ?its"
    by (simp_all add: get_body_def get_def get_default_def)
  have t: "truthy example_ops (get (get_body ?p1) ''id'')" by (simp add: g)
  note a = supplied_id_used_or_rejected[OF _ l, of example_ops _ example_env]
  from a[of ?p1] have a1: "\<exists>msg. create_product example_ops example_env ?p1 example_db
      = (example_db, Inr (bad_request msg))"
    by (simp add: g sp ip str_of_JStr)
  from a[of ?o1] have a3: "\<exists>msg. create_order example_ops example_env ?o1 example_db
      = (example_db, Inr (bad_request msg))"
    by (simp add: g so io str_of_JStr)
  have d': "create_product example_ops example_env ?p2 example_db
     = (Some (Parsed (JObj [(''products'', JList [example_product,
          JObj [(''id'', JStr ''p2''), (''name'', JStr ''Pen''), (''price'', JFloat 3),
                (''createdAt'', JStr ''2024-01-01T00:00:00Z'')]]),
        (''orders'', JList [example_order])])),
        Inr (201, JObj [(''id'', JStr ''p2''), (''name'', JStr ''Pen''), (''price'', JFloat 3),
                (''createdAt'', JStr ''2024-01-01T00:00:00Z'')]))"
    by (simp add: create_product_def get_body_def get_def get_default_def has_key_def str_of_def
        load_db_def ensure_db_exists_def read_json_def repair_def seq_def Let_def
        index_by_id_def save_db_def example_db_def example_product_def example_order_def
        example_ops_def example_env_def)
  have e': "create_order example_ops example_env ?o2 example_db
     = (Some (Parsed (JObj [(''products'', JList [example_product]),
        (''orders'', JList [example_order,
          JObj [(''id'', JStr ''o2''), (''customer'', JStr ''Omar''),
                (''items'', JList ?its),
                (''status'', JStr ''NEW''), (''createdAt'', JStr ''2024-01-01T00:00:00Z'')]])])),
        Inr (201, JObj [(''id'', JStr ''o2''), (''customer'', JStr ''Omar''),
                (''items'', JList ?its),
                (''status'', JStr ''NEW''), (''createdAt'', JStr ''2024-01-01T00:00:00Z'')]))"
    by (simp add: create_order_def get_body_def get_def get_default_def has_key_def str_of_def
        load_db_def ensure_db_exists_def read_json_def repair_def seq_def Let_def
        index_by_id_def save_db_def example_db_def example_product_def example_order_def
        example_ops_def example_env_def read_int_def strip_blanks_def)
  from t l a1 a3 d' e' show ?thesis by blast
qed

subsection \<open>A falsy id\<close>

text \<open>
  C10, as the code has it.  The generated id is looked up in the index exactly as a
  supplied id is.  Here the document already has a product with the id that will be
  generated; the request, whose own id is the falsy \<^verbatim>\<open>0\<close>, is answered 400 with
  the message that the product id already exists.
\<close>

theorem generated_id_collision:
  "\<not> truthy example_ops (JInt 0) \<and>
   ''p-'' @ take 8 (uuid4_hex example_env) = ''p-01234567'' \<and>
   create_product example_ops example_env
     (JObj [(''id'', JInt 0), (''name'', JStr ''Pen''), (''price'', JInt 3)])
     (Some (Parsed (JObj [(''products'', JList
        [JObj [(''id'', JStr ''p-01234567''), (''name'', JStr ''Ink''), (''price'', JFloat 1),
               (''createdAt'', JStr ''2023-12-31T00:00:00Z'')]]),
        (''orders'', JList [])]))) =
     (Some (Parsed (JObj [(''products'', JList
        [JObj [(''id'', JStr ''p-01234567''), (''name'', JStr ''Ink''), (''price'', JFloat 1),
               (''createdAt'', JStr ''2023-12-31T00:00:00Z'')]]),
        (''orders'', JList [])])),
      Inr (bad_request ''Product id already exists''))"
  by (simp add: create_product_def get_body_def get_def get_default_def has_key_def str_of_def
      load_db_Parsed repair_def seq_def Let_def index_by_id_def
      example_ops_def example_env_def)

text \<open>
  C10, amended.  When the value under \<^verbatim>\<open>id\<close> is falsy (absent, null, the empty
  string, zero, false, an empty list or object), \<^verbatim>\<open>create_product\<close> and
  \<^verbatim>\<open>create_order\<close> answer exactly as they answer the same request without \<^verbatim>\<open>id\<close>.
  The id they use is \<^verbatim>\<open>p-\<close>, respectively \<^verbatim>\<open>o-\<close>, followed by the first eight
  characters of the UUID's hexadecimal form.  If that id is already in the index the
  request is answered 400 and the file is the file as it was; if it is not, and the
  other fields pass validation, the request is answered 201 and the file written is
  the document with the new record, which has that id, appended.  The UUID has 32
  hexadecimal digits, so the suffix has eight.  Given that the \<^verbatim>\<open>repr\<close> of a float
  is never the empty string, no record is created and stored with the empty string as
  id, whatever the request.
\<close>

theorem falsy_id_generated:
  "(\<not> truthy P (get (get_body request) ''id'') \<longrightarrow>
      create_product P E request fs =
        create_product P E (JObj (AList.delete ''id'' (get_body request))) fs \<and>
      create_order P E request fs =
        create_order P E (JObj (AList.delete ''id'' (get_body request))) fs \<and>
      (\<forall>fs1 data. load_db fs = (fs1, Inr data) \<longrightarrow>
         (index_by_id P (seq data ''products'') (''p-'' @ take 8 (uuid4_hex E)) \<noteq> None \<longrightarrow>
            (\<exists>msg. create_product P E request fs = (fs, Inr (bad_request msg)))) \<and>
         (index_by_id P (seq data ''products'') (''p-'' @ take 8 (uuid4_hex E)) = None \<and>
          truthy P (get (get_body request) ''name'') \<and>
          py_float P (get (get_body request) ''price'') \<noteq> None \<longrightarrow>
            (\<exists>d. create_product P E request fs =
                    (save_db (AList.update ''products''
                                (JList (seq data ''products'' @ [JObj d])) data),
                     Inr (201, JObj d)) \<and>
                  map_of d ''id'' = Some (JStr (''p-'' @ take 8 (uuid4_hex E))))) \<and>
         (\<forall>fs' r. create_product P E request fs = (fs', Inr (201, r)) \<longrightarrow>
            (\<exists>d. r = JObj d \<and> map_of d ''id'' = Some (JStr (''p-'' @ take 8 (uuid4_hex E))) \<and>
               fs' = save_db (AList.update ''products''
                                (JList (seq data ''products'' @ [r])) data))) \<and>
         (index_by_id P (seq data ''orders'') (''o-'' @ take 8 (uuid4_hex E)) \<noteq> None \<longrightarrow>
            (\<exists>msg. create_order P E request fs = (fs, Inr (bad_request msg)))) \<and>
         (index_by_id P (seq data ''orders'') (''o-'' @ take 8 (uuid4_hex E)) = None \<and>
          truthy P (get (get_body request) ''customer'') \<and>
          (\<exists>its items. its \<noteq> [] \<and> get (get_body request) ''items'' = JList its \<and>
             validate_items P (index_by_id P (seq data ''products'')) [] its = Inr items) \<longrightarrow>
            (\<exists>d. create_order P E request fs =
                    (save_db (AList.update ''orders''
                                (JList (seq data ''orders'' @ [JObj d])) data),
                     Inr (201, JObj d)) \<and>
                  map_of d ''id'' = Some (JStr (''o-'' @ take 8 (uuid4_hex E))))) \<and>
         (\<forall>fs' r. create_order P E request fs = (fs', Inr (201, r)) \<longrightarrow>
            (\<exists>d. r = JObj d \<and> map_of d ''id'' = Some (JStr (''o-'' @ take 8 (uuid4_hex E))) \<and>
               fs' = save_db (AList.update ''orders''
                                (JList (seq data ''orders'' @ [r])) data))))) \<and>
   (length (uuid4_hex E) = 32 \<and> is_hex (uuid4_hex E) \<longrightarrow>
      length (take 8 (uuid4_hex E)) = 8 \<and> is_hex (take 8 (uuid4_hex E))) \<and>
   ((\<forall>x. repr_of_float P x \<noteq> []) \<longrightarrow>
      (\<forall>fs' r. create_product P E request fs = (fs', Inr (201, r)) \<longrightarrow>
         (\<exists>d s fs1 data. r = JObj d \<and> map_of d ''id'' = Some (JStr s) \<and> s \<noteq> [] \<and>
            load_db fs = (fs1, Inr data) \<and>
            fs' = save_db (AList.update ''products''
                             (JList (seq data ''products'' @ [r])) data))) \<and>
      (\<forall>fs' r. create_order P E request fs = (fs', Inr (201, r)) \<longrightarrow>
         (\<exists>d s fs1 data. r = JObj d \<and> map_of d ''id'' = Some (JStr s) \<and> s \<noteq> [] \<and>
            load_db fs = (fs1, Inr data) \<and>
            fs' = save_db (AList.update ''orders''
                             (JList (seq data ''orders'' @ [r])) data))))"
proof -
  let ?body = "get_body request"
  let ?p = "''p-'' @ take 8 (uuid4_hex E)"
  let ?o = "''o-'' @ take 8 (uuid4_hex E)"
  have A: "create_product P E request fs =
        create_product P E (JObj (AList.delete ''id'' ?body)) fs \<and>
      create_order P E request fs =
        create_order P E (JObj (AList.delete ''id'' ?body)) fs"
    if f: "\<not> truthy P (get ?body ''id'')"
    using f by (simp add: create_product_ignores_falsy_id[symmetric]
        create_order_ignores_falsy_id[symmetric])
  have B: "(index_by_id P (seq data ''products'') ?p \<noteq> None \<longrightarrow>
            (\<exists>msg. create_product P E request fs = (fs, Inr (bad_request msg)))) \<and>
         (index_by_id P (seq data ''products'') ?p = None \<and>
          truthy P (get ?body ''name'') \<and> py_float P (get ?body ''price'') \<noteq> None \<longrightarrow>
            (\<exists>d. create_product P E request fs =
                    (save_db (AList.update ''products''
                                (JList (seq data ''products'' @ [JObj d])) data),
                     Inr (201, JObj d)) \<and>
                  map_of d ''id'' = Some (JStr ?p))) \<and>
         (\<forall>fs' r. create_product P E request fs = (fs', Inr (201, r)) \<longrightarrow>
            (\<exists>d. r = JObj d \<and> map_of d ''id'' = Some (JStr ?p) \<and>
               fs' = save_db (AList.update ''products''
                                (JList (seq data ''products'' @ [r])) data)))"
    if f: "\<not> truthy P (get ?body ''id'')" and l: "load_db fs = (fs1, Inr data)" for fs1 data
  proof -
    have c: "chosen_id P E ''p-'' ?body = ?p" using f by (rule chosen_id_falsy)
    have 1: "index_by_id P (seq data ''products'') ?p \<noteq> None \<longrightarrow>
            (\<exists>msg. create_product P E request fs = (fs, Inr (bad_request msg)))"
      using create_product_duplicate[OF l, of P E request] by (simp add: c)
    have 2: "index_by_id P (seq data ''products'') ?p = None \<and>
          truthy P (get ?body ''name'') \<and> py_float P (get ?body ''price'') \<noteq> None \<longrightarrow>
            (\<exists>d. create_product P E request fs =
                    (save_db (AList.update ''products''
                                (JList (seq data ''products'' @ [JObj d])) data),
                     Inr (201, JObj d)) \<and>
                  map_of d ''id'' = Some (JStr ?p))"
      using create_product_fresh_file[OF l, of P E request] by (auto simp: c)
    have 3: "\<forall>fs' r. create_product P E request fs = (fs', Inr (201, r)) \<longrightarrow>
            (\<exists>d. r = JObj d \<and> map_of d ''id'' = Some (JStr ?p) \<and>
               fs' = save_db (AList.update ''products''
                                (JList (seq data ''products'' @ [r])) data))"
      using create_product_created_file[OF _ l, of P E request] by (simp add: c) blast
    from 1 2 3 show ?thesis by blast
  qed
  have C: "(index_by_id P (seq data ''orders'') ?o \<noteq> None \<longrightarrow>
            (\<exists>msg. create_order P E request fs = (fs, Inr (bad_request msg)))) \<and>
         (index_by_id P (seq data ''orders'') ?o = None \<and>
          truthy P (get ?body ''customer'') \<and>
          (\<exists>its items. its \<noteq> [] \<and> get ?body ''items'' = JList its \<and>
             validate_items P (index_by_id P (seq data ''products'')) [] its = Inr items) \<longrightarrow>
            (\<exists>d. create_order P E request fs =
                    (save_db (AList.update ''orders''
                                (JList (seq data ''orders'' @ [JObj d])) data),
                     Inr (201, JObj d)) \<and>
                  map_of d ''id'' = Some (JStr ?o))) \<and>
         (\<forall>fs' r. create_order P E request fs = (fs', Inr (201, r)) \<longrightarrow>
            (\<exists>d. r = JObj d \<and> map_of d ''id'' = Some (JStr ?o) \<and>
               fs' = save_db (AList.update ''orders''
                                (JList (seq data ''orders'' @ [r])) data)))"
    if f: "\<not> truthy P (get ?body ''id'')" and l: "load_db fs = (fs1, Inr data)" for fs1 data
  proof -
    have c: "chosen_id P E ''o-'' ?body = ?o" using f by (rule chosen_id_falsy)
    have 1: "index_by_id P (seq data ''orders'') ?o \<noteq> None \<longrightarrow>
            (\<exists>msg. create_order P E request fs = (fs, Inr (bad_request msg)))"
      using create_order_duplicate[OF l, of P E request] by (simp add: c)
    have 2: "index_by_id P (seq data ''orders'') ?o = None \<and>
          truthy P (get ?body ''customer'') \<and>
          (\<exists>its items. its \<noteq> [] \<and> get ?body ''items'' = JList its \<and>
             validate_items P (index_by_id P (seq data ''products'')) [] its = Inr items) \<longrightarrow>
            (\<exists>d. create_order P E request fs =
                    (save_db (AList.update ''orders''
                                (JList (seq data ''orders'' @ [JObj d])) data),
                     Inr (201, JObj d)) \<and>
                  map_of d ''id'' = Some (JStr ?o))"
      using create_order_fresh_file[OF l, of P E request] by (auto simp: c)
    have 3: "\<forall>fs' r. create_order P E request fs = (fs', Inr (201, r)) \<longrightarrow>
            (\<exists>d. r = JObj d \<and> map_of d ''id'' = Some (JStr ?o) \<and>
               fs' = save_db (AList.update ''orders''
                                (JList (seq data ''orders'' @ [r])) data))"
      using create_order_created_file[OF _ l, of P E request] by (simp add: c) blast
    from 1 2 3 show ?thesis by blast
  qed
  have D: "length (uuid4_hex E) = 32 \<and> is_hex (uuid4_hex E) \<longrightarrow>
      length (take 8 (uuid4_hex E)) = 8 \<and> is_hex (take 8 (uuid4_hex E))"
    by (simp add: is_hex_take)
  have ne: "chosen_id P E prefix ?body \<noteq> []"
    if "prefix \<noteq> []" "\<forall>x. repr_of_float P x \<noteq> []" for prefix
  proof (cases "truthy P (get ?body ''id'')")
    case True
    with that show ?thesis by (simp add: chosen_id_truthy str_of_truthy_nonempty)
  next
    case False
    with that show ?thesis by (simp add: chosen_id_falsy)
  qed
  have F: "\<exists>d s fs1 data. r = JObj d \<and> map_of d ''id'' = Some (JStr s) \<and> s \<noteq> [] \<and>
            load_db fs = (fs1, Inr data) \<and>
            fs' = save_db (AList.update ''products''
                             (JList (seq data ''products'' @ [r])) data)"
    if fl: "\<forall>x. repr_of_float P x \<noteq> []"
      and c: "create_product P E request fs = (fs', Inr (201, r))" for fs' r
  proof -
    from create_product_created[OF c] obtain fs1 data where l: "load_db fs = (fs1, Inr data)"
      by blast
    from create_product_created_file[OF c l] ne[of "''p-''"] fl l show ?thesis by auto
  qed
  have G: "\<exists>d s fs1 data. r = JObj d \<and> map_of d ''id'' = Some (JStr s) \<and> s \<noteq> [] \<and>
            load_db fs = (fs1, Inr data) \<and>
            fs' = save_db (AList.update ''orders''
                             (JList (seq data ''orders'' @ [r])) data)"
    if fl: "\<forall>x. repr_of_float P x \<noteq> []"
      and c: "create_order P E request fs = (fs', Inr (201, r))" for fs' r
  proof -
    from create_order_created[OF c] obtain fs1 data where l: "load_db fs = (fs1, Inr data)"
      by blast
    from create_order_created_file[OF c l] ne[of "''o-''"] fl l show ?thesis by auto
  qed
  from A B C have ABC: "\<not> truthy P (get ?body ''id'') \<longrightarrow>
      create_product P E request fs =
        create_product P E (JObj (AList.delete ''id'' ?body)) fs \<and>
      create_order P E request fs =
        create_order P E (JObj (AList.delete ''id'' ?body)) fs \<and>
      (\<forall>fs1 data. load_db fs = (fs1, Inr data) \<longrightarrow>
         (index_by_id P (seq data ''products'') ?p \<noteq> None \<longrightarrow>
            (\<exists>msg. create_product P E request fs = (fs, Inr (bad_request msg)))) \<and>
         (index_by_id P (seq data ''products'') ?p = None \<and>
          truthy P (get ?body ''name'') \<and> py_float P (get ?body ''price'') \<noteq> None \<longrightarrow>
            (\<exists>d. create_product P E request fs =
                    (save_db (AList.update ''products''
                                (JList (seq data ''products'' @ [JObj d])) data),
                     Inr (201, JObj d)) \<and>
                  map_of d ''id'' = Some (JStr ?p))) \<and>
         (\<forall>fs' r. create_product P E request fs = (fs', Inr (201, r)) \<longrightarrow>
            (\<exists>d. r = JObj d \<and> map_of d ''id'' = Some (JStr ?p) \<and>
               fs' = save_db (AList.update ''products''
                                (JList (seq data ''products'' @ [r])) data))) \<and>
         (index_by_id P (seq data ''orders'') ?o \<noteq> None \<longrightarrow>
            (\<exists>msg. create_order P E request fs = (fs, Inr (bad_request msg)))) \<and>
         (index_by_id P (seq data ''orders'') ?o = None \<and>
          truthy P (get ?body ''customer'') \<and>
          (\<exists>its items. its \<noteq> [] \<and> get ?body ''items'' = JList its \<and>
             validate_items P (index_by_id P (seq data ''products'')) [] its = Inr items) \<longrightarrow>
            (\<exists>d. create_order P E request fs =
                    (save_db (AList.update ''orders''
                                (JList (seq data ''orders'' @ [JObj d])) data),
                     Inr (201, JObj d)) \<and>
                  map_of d ''id'' = Some (JStr ?o))) \<and>
         (\<forall>fs' r. create_order P E request fs = (fs', Inr (201, r)) \<longrightarrow>
            (\<exists>d. r = JObj d \<and> map_of d ''id'' = Some (JStr ?o) \<and>
               fs' = save_db (AList.update ''orders''
                                (JList (seq data ''orders'' @ [r])) data))))"
    by blast
  from F G have FG: "(\<forall>x. repr_of_float P x \<noteq> []) \<longrightarrow>
      (\<forall>fs' r. create_product P E request fs = (fs', Inr (201, r)) \<longrightarrow>
         (\<exists>d s fs1 data. r = JObj d \<and> map_of d ''id'' = Some (JStr s) \<and> s \<noteq> [] \<and>
            load_db fs = (fs1, Inr data) \<and>
            fs' = save_db (AList.update ''products''
                             (JList (seq data ''products'' @ [r])) data))) \<and>
      (\<forall>fs' r. create_order P E request fs = (fs', Inr (201, r)) \<longrightarrow>
         (\<exists>d s fs1 data. r = JObj d \<and> map_of d ''id'' = Some (JStr s) \<and> s \<noteq> [] \<and>
            load_db fs = (fs1, Inr data) \<and>
            fs' = save_db (AList.update ''orders''
                             (JList (seq data ''orders'' @ [r])) data)))"
    by blast
  from ABC D FG show ?thesis by (intro conjI)
qed


text \<open>
  On the example document, a request to create a product with the id \<^verbatim>\<open>0\<close> is
  answered as the request without id: 201, and the product is stored with the id
  \<^verbatim>\<open>p-01234567\<close>.
\<close>

theorem falsy_id_generated_witness:
  "\<not> truthy example_ops (get (get_body
      (JObj [(''id'', JInt 0), (''name'', JStr ''Pen''), (''price'', JInt 3)])) ''id'') \<and>
   create_product example_ops example_env
      (JObj [(''id'', JInt 0), (''name'', JStr ''Pen''), (''price'', JInt 3)]) example_db =
   create_product example_ops example_env
      (JObj [(''name'', JStr ''Pen''), (''price'', JInt 3)]) example_db \<and>
   create_product example_ops example_env
      (JObj [(''id'', JInt 0), (''name'', JStr ''Pen''), (''price'', JInt 3)]) example_db =
     (Some (Parsed (JObj [(''products'', JList [example_product,
          JObj [(''id'', JStr ''p-01234567''), (''name'', JStr ''Pen''), (''price'', JFloat 3),
                (''createdAt'', JStr ''2024-01-01T00:00:00Z'')]]),
        (''orders'', JList [example_order])])),
      Inr (201, JObj [(''id'', JStr ''p-01234567''), (''name'', JStr ''Pen''), (''price'', JFloat 3),
                (''createdAt'', JStr ''2024-01-01T00:00:00Z'')])) \<and>
   length (uuid4_hex example_env) = 32 \<and> is_hex (uuid4_hex example_env) \<and>
   length (take 8 (uuid4_hex example_env)) = 8 \<and> is_hex (take 8 (uuid4_hex example_env)) \<and>
   (\<forall>x. repr_of_float example_ops x \<noteq> [])"
proof -
  let ?req = "JObj [(''id'', JInt 0), (''name'', JStr ''Pen''), (''price'', JInt 3)] :: int json"
  have t: "\<not> truthy example_ops (get (get_body ?req) ''id'')"
    by (simp add: get_body_def get_def get_default_def)
  have u: "length (uuid4_hex example_env) = 32 \<and> is_hex (uuid4_hex example_env)"
    by (simp add: example_env_def is_hex_def)
  have r: "\<forall>x. repr_of_float example_ops x \<noteq> []"
    by (simp add: example_ops_def)
  have d: "AList.delete ''id'' (get_body ?req) = [(''name'', JStr ''Pen''), (''price'', JInt 3)]"
    by (simp add: get_body_def)
  have h: "create_product example_ops example_env ?req example_db =
     (Some (Parsed (JObj [(''products'', JList [example_product,
          JObj [(''id'', JStr ''p-01234567''), (''name'', JStr ''Pen''), (''price'', JFloat 3),
                (''createdAt'', JStr ''2024-01-01T00:00:00Z'')]]),
        (''orders'', JList [example_order])])),
      Inr (201, JObj [(''id'', JStr ''p-01234567''), (''name'', JStr ''Pen''), (''price'', JFloat 3),
                (''createdAt'', JStr ''2024-01-01T00:00:00Z'')]))"
    by (simp add: create_product_def get_body_def get_def get_default_def has_key_def str_of_def
        load_db_def ensure_db_exists_def read_json_def repair_def seq_def Let_def
        index_by_id_def save_db_def example_db_def example_product_def example_order_def
        example_ops_def example_env_def)
  from falsy_id_generated[of example_ops ?req example_env example_db] t u d
  have e: "create_product example_ops example_env ?req example_db =
      create_product example_ops example_env
        (JObj [(''name'', JStr ''Pen''), (''price'', JInt 3)]) example_db"
    and x: "length (take 8 (uuid4_hex example_env)) = 8 \<and> is_hex (take 8 (uuid4_hex example_env))"
    by simp_all
  from t e h u x r show ?thesis by blast
qed

subsection \<open>Requests answered 400\<close>

text \<open>
  C2, as the code has it.  \<^verbatim>\<open>create_order\<close> loads the document before it validates
  the items, and loading writes the empty document when there is no file.  A request
  to create an order for an unknown product, sent when the file is absent, is
  answered 400 and leaves a file behind.
\<close>

theorem bad_request_after_initialising:
  "snd (run_write example_ops example_env
          (CreateOrder (JObj [(''customer'', JStr ''Omar''),
             (''items'', JList [JObj [(''productId'', JStr ''p1''), (''qty'', JInt 1)]])]))
          None) = Inr (bad_request ''productId does not exist: p1'') \<and>
   fst (run_write example_ops example_env
          (CreateOrder (JObj [(''customer'', JStr ''Omar''),
             (''items'', JList [JObj [(''productId'', JStr ''p1''), (''qty'', JInt 1)]])]))
          None) = Some (Parsed (JObj empty_db))"
  by (simp add: create_order_def get_body_def get_def get_default_def str_of_def
      load_db_None seq_empty_db index_by_id_Nil example_ops_def strip_blanks_def)

text \<open>
  C2, amended.  When a write is answered 400 nothing that the request asked for is
  persisted: \<^verbatim>\<open>load_db\<close> returns afterwards what it returned before, and the file
  itself is the same, except that a \<^verbatim>\<open>create_order\<close> request that found the file
  absent or blank leaves it initialised to the empty document.
\<close>

theorem bad_request_persists_nothing:
  assumes "run_write P E w fs = (fs', Inr (400, b))"
  shows "(fs' = fs \<or>
          ((\<exists>request. w = CreateOrder request) \<and> (fs = None \<or> fs = Some Blank) \<and>
           fs' = Some (Parsed (JObj empty_db)))) \<and>
         snd (load_db fs') = snd (load_db fs)"
proof -
  have unchanged: "fs' = fs \<or>
          ((\<exists>request. w = CreateOrder request) \<and> (fs = None \<or> fs = Some Blank) \<and>
           fs' = Some (Parsed (JObj empty_db)))"
  proof (cases w)
    case (CreateProduct request)
    with assms show ?thesis by (auto dest: create_product_400)
  next
    case (UpdateProduct pid request)
    with assms show ?thesis by (auto dest: update_product_400)
  next
    case (DeleteProduct pid)
    with assms show ?thesis by (auto dest: delete_product_codes)
  next
    case (CreateOrder request)
    with assms have "fs' = fs \<or> fs' = ensure_db_exists fs"
      by (auto dest: create_order_400)
    with ensure_db_exists_cases[of fs] CreateOrder show ?thesis by auto
  next
    case (UpdateOrder oid request)
    with assms show ?thesis by (auto dest: update_order_400)
  next
    case (DeleteOrder oid)
    with assms show ?thesis by (auto dest: delete_order_codes)
  qed
  then have "fs' = fs \<or> fs' = ensure_db_exists fs"
    by (auto simp: ensure_db_exists_def)
  then have "snd (load_db fs') = snd (load_db fs)"
    by (auto simp: load_db_ensure)
  with unchanged show ?thesis by blast
qed

text \<open>
  On the example document: an update of order \<^verbatim>\<open>o1\<close> with a new status and an empty
  list of items is answered 400, and the file is as before.
\<close>

theorem bad_request_persists_nothing_witness:
  "run_write example_ops example_env
     (UpdateOrder ''o1'' (JObj [(''status'', JStr ''PAID''), (''items'', JList [])])) example_db =
     (example_db, Inr (400, JObj [(''error'', JStr ''Bad Request''),
                                  (''message'', JStr ''items must be a non-empty list'')])) \<and>
   snd (load_db example_db) =
     Inr [(''products'', JList [example_product]), (''orders'', JList [example_order])]"
proof -
  have l: "load_db example_db = (example_db,
      Inr [(''products'', JList [example_product]), (''orders'', JList [example_order])])"
    by (simp add: example_db_def load_db_Parsed repair_def)
  have i: "index_by_id example_ops [example_order] ''o1'' = Some 0"
    by (simp add: index_by_id_def example_order_def has_key_def get_def get_default_def str_of_def)
  have h: "run_write example_ops example_env
     (UpdateOrder ''o1'' (JObj [(''status'', JStr ''PAID''), (''items'', JList [])])) example_db =
     (example_db, Inr (400, JObj [(''error'', JStr ''Bad Request''),
                                  (''message'', JStr ''items must be a non-empty list'')]))"
    by (simp add: update_order_def l i seq_def get_body_def has_key_def get_def get_default_def
        bad_request_def Let_def)
  from bad_request_persists_nothing[OF h] h l show ?thesis by simp
qed

subsection \<open>Updating a product\<close>

text \<open>
  C6.  \<^verbatim>\<open>update_product\<close> checks a supplied price as \<^verbatim>\<open>create_product\<close> does, with
  the same message, but it stores a supplied name without the check that
  \<^verbatim>\<open>create_product\<close> makes.  On the example document, the request to give product
  \<^verbatim>\<open>p1\<close> the empty name is answered 200 and the empty name is written to the file,
  while the request to create a product with the empty name is answered 400 and a
  price that is not a number is answered 400 by the update as well.
\<close>

theorem update_product_accepts_empty_name:
  "update_product example_ops ''p1'' (JObj [(''name'', JStr [])]) example_db =
     (Some (Parsed (JObj [(''products'', JList
        [JObj [(''id'', JStr ''p1''), (''name'', JStr []), (''price'', JFloat 12),
               (''createdAt'', JStr ''2023-12-31T00:00:00Z'')]]),
        (''orders'', JList [example_order])])),
      Inr (200, JObj [(''id'', JStr ''p1''), (''name'', JStr []), (''price'', JFloat 12),
               (''createdAt'', JStr ''2023-12-31T00:00:00Z'')])) \<and>
   create_product example_ops example_env
     (JObj [(''name'', JStr []), (''price'', JInt 3)]) example_db =
     (example_db, Inr (bad_request ''Field 'name' is required'')) \<and>
   update_product example_ops ''p1'' (JObj [(''price'', JStr ''abc'')]) example_db =
     (example_db, Inr (bad_request ''Field 'price' must be a number''))"
proof -
  have a: "update_product example_ops ''p1'' (JObj [(''name'', JStr [])]) example_db =
     (Some (Parsed (JObj [(''products'', JList
        [JObj [(''id'', JStr ''p1''), (''name'', JStr []), (''price'', JFloat 12),
               (''createdAt'', JStr ''2023-12-31T00:00:00Z'')]]),
        (''orders'', JList [example_order])])),
      Inr (200, JObj [(''id'', JStr ''p1''), (''name'', JStr []), (''price'', JFloat 12),
               (''createdAt'', JStr ''2023-12-31T00:00:00Z'')]))"
    by (simp add: update_product_def load_db_Parsed repair_def seq_def index_by_id_def
        get_body_def has_key_def get_def get_default_def set_field_def str_of_def save_db_def
        Let_def example_db_def example_product_def)
  have b: "create_product example_ops example_env
     (JObj [(''name'', JStr []), (''price'', JInt 3)]) example_db =
     (example_db, Inr (bad_request ''Field 'name' is required''))"
    by (simp add: create_product_def get_body_def get_def get_default_def Let_def)
  have c: "update_product example_ops ''p1'' (JObj [(''price'', JStr ''abc'')]) example_db =
     (example_db, Inr (bad_request ''Field 'price' must be a number''))"
    by (simp add: update_product_def load_db_Parsed repair_def seq_def index_by_id_def
        get_body_def has_key_def get_def get_default_def str_of_def
        Let_def example_db_def example_product_def example_ops_def read_int_def)
  from a b c show ?thesis by blast
qed

subsection \<open>Updating an order\<close>




subsection \<open>The items of an order\<close>

text \<open>
  C3, as the code has it.  \<^verbatim>\<open>update_order\<close> looks the order up before it looks at
  the items.  A request to update an order that does not exist is answered 404
  whatever its items are; here the only item is the number 5, which is not an object.
\<close>

theorem invalid_item_answered_not_found:
  "update_order example_ops ''o9'' (JObj [(''items'', JList [JInt 5])]) example_db =
     (example_db, Inr (404, JObj [(''error'', JStr ''Not Found''),
                                  (''message'', JStr ''order not found'')]))"
  by (simp add: update_order_def load_db_Parsed repair_def seq_def index_by_id_def
      get_body_def has_key_def get_def get_default_def str_of_def not_found_def
      Let_def example_db_def example_order_def)

text \<open>
  C3, amended.  Stripping the empty string gives the empty string.  The rule for an
  item is \<open>spec_item_ok\<close>, against the index of the products just loaded.

  When \<^verbatim>\<open>create_order\<close> answers 201, every item of the request satisfies the rule,
  the record holds the normalised items, one for each, and is appended to the orders
  in the file written.  When \<^verbatim>\<open>update_order\<close> answers 200 to a request with
  \<^verbatim>\<open>items\<close>, every item satisfies the rule and the record, which \<^verbatim>\<open>get_order\<close>
  returns afterwards, holds the normalised items.

  When the document loads and an item of the list violates the rule, no item is
  accepted: \<^verbatim>\<open>create_order\<close> answers 400, and the file is as it was or as loading
  left it, with the same document; \<^verbatim>\<open>update_order\<close> answers 400 and leaves the file
  as it was if the order exists, and answers 404 if it does not.  When the document
  does not load, the file is untouched and the request ends with the error of the
  load, or for \<^verbatim>\<open>create_order\<close> with a 400 given before loading.
\<close>

theorem items_all_or_nothing:
  assumes "strip P [] = []"
  shows
   "(\<forall>fs' r. create_order P E request fs = (fs', Inr (201, r)) \<longrightarrow>
       (\<exists>fs1 data its d. load_db fs = (fs1, Inr data) \<and>
          get (get_body request) ''items'' = JList its \<and>
          (\<forall>it \<in> set its. spec_item_ok P (index_by_id P (seq data ''products'')) it) \<and>
          r = JObj d \<and> map_of d ''items'' = Some (JList (map (normalized P) its)) \<and>
          fs' = save_db (AList.update ''orders'' (JList (seq data ''orders'' @ [r])) data))) \<and>
    (\<forall>fs' r. update_order P oid request fs = (fs', Inr (200, r)) \<and>
          has_key (get_body request) ''items'' \<longrightarrow>
       (\<exists>data its d. load_db fs = (fs, Inr data) \<and>
          get (get_body request) ''items'' = JList its \<and>
          (\<forall>it \<in> set its. spec_item_ok P (index_by_id P (seq data ''products'')) it) \<and>
          r = JObj d \<and> map_of d ''items'' = Some (JList (map (normalized P) its)) \<and>
          get_order P oid fs' = (fs', Inr (200, r)))) \<and>
    (\<forall>fs1 data its. load_db fs = (fs1, Inr data) \<and>
          get (get_body request) ''items'' = JList its \<and>
          (\<exists>it \<in> set its. \<not> spec_item_ok P (index_by_id P (seq data ''products'')) it) \<longrightarrow>
       (\<exists>msg fs'. create_order P E request fs = (fs', Inr (bad_request msg)) \<and>
          (fs' = fs \<or> fs' = fs1) \<and> load_db fs' = (fs1, Inr data)) \<and>
       (index_by_id P (seq data ''orders'') oid \<noteq> None \<longrightarrow>
          (\<exists>msg. update_order P oid request fs = (fs, Inr (bad_request msg)))) \<and>
       (index_by_id P (seq data ''orders'') oid = None \<longrightarrow>
          update_order P oid request fs = (fs1, Inr (not_found ''order not found'')))) \<and>
    (\<forall>fs1 e. load_db fs = (fs1, Inl e) \<longrightarrow>
       fs1 = fs \<and> update_order P oid request fs = (fs, Inl e) \<and>
       (create_order P E request fs = (fs, Inl e) \<or>
        (\<exists>msg. create_order P E request fs = (fs, Inr (bad_request msg)))))"
proof (intro conjI allI impI)
  fix fs' r
  assume "create_order P E request fs = (fs', Inr (201, r))"
  with assms show "\<exists>fs1 data its d. load_db fs = (fs1, Inr data) \<and>
          get (get_body request) ''items'' = JList its \<and>
          (\<forall>it \<in> set its. spec_item_ok P (index_by_id P (seq data ''products'')) it) \<and>
          r = JObj d \<and> map_of d ''items'' = Some (JList (map (normalized P) its)) \<and>
          fs' = save_db (AList.update ''orders'' (JList (seq data ''orders'' @ [r])) data)"
    by (rule create_order_items)
next
  fix fs' r
  assume h: "update_order P oid request fs = (fs', Inr (200, r)) \<and>
          has_key (get_body request) ''items''"
  from assms conjunct1[OF h] conjunct2[OF h]
  show "\<exists>data its d. load_db fs = (fs, Inr data) \<and>
          get (get_body request) ''items'' = JList its \<and>
          (\<forall>it \<in> set its. spec_item_ok P (index_by_id P (seq data ''products'')) it) \<and>
          r = JObj d \<and> map_of d ''items'' = Some (JList (map (normalized P) its)) \<and>
          get_order P oid fs' = (fs', Inr (200, r))"
    by (rule update_order_items)
next
  fix fs1 data its
  assume h: "load_db fs = (fs1, Inr data) \<and>
          get (get_body request) ''items'' = JList its \<and>
          (\<exists>it \<in> set its. \<not> spec_item_ok P (index_by_id P (seq data ''products'')) it)"
  note l = conjunct1[OF h] and its = conjunct1[OF conjunct2[OF h]]
    and bad = conjunct2[OF conjunct2[OF h]]
  from assms l its bad
  show "\<exists>msg fs'. create_order P E request fs = (fs', Inr (bad_request msg)) \<and>
          (fs' = fs \<or> fs' = fs1) \<and> load_db fs' = (fs1, Inr data)"
    by (rule create_order_bad_item)
  from update_order_bad_item[OF assms l its bad, of oid]
  show "index_by_id P (seq data ''orders'') oid \<noteq> None \<Longrightarrow>
          \<exists>msg. update_order P oid request fs = (fs, Inr (bad_request msg))"
    and "index_by_id P (seq data ''orders'') oid = None \<Longrightarrow>
          update_order P oid request fs = (fs1, Inr (not_found ''order not found''))"
    by simp_all
next
  fix fs1 e
  assume l: "load_db fs = (fs1, Inl e)"
  from orders_load_error[OF l, of P oid request E]
  show "fs1 = fs" and "update_order P oid request fs = (fs, Inl e)"
    and "create_order P E request fs = (fs, Inl e) \<or>
        (\<exists>msg. create_order P E request fs = (fs, Inr (bad_request msg)))"
    by simp_all
qed

text \<open>
  On the example document: a list of one unit of \<^verbatim>\<open>p1\<close> and zero units of
  \<^verbatim>\<open>p1\<close> is refused as a whole, by \<^verbatim>\<open>create_order\<close> and by \<^verbatim>\<open>update_order\<close>,
  and the file stays as it was.
\<close>

theorem items_all_or_nothing_witness:
  "strip example_ops [] = [] \<and>
   spec_item_ok example_ops (index_by_id example_ops [example_product])
       (JObj [(''productId'', JStr ''p1''), (''qty'', JInt 1)]) \<and>
   \<not> spec_item_ok example_ops (index_by_id example_ops [example_product])
       (JObj [(''productId'', JStr ''p1''), (''qty'', JInt 0)]) \<and>
   (\<exists>msg. update_order example_ops ''o1''
      (JObj [(''items'', JList [JObj [(''productId'', JStr ''p1''), (''qty'', JInt 1)],
                                JObj [(''productId'', JStr ''p1''), (''qty'', JInt 0)]])])
      example_db = (example_db, Inr (bad_request msg))) \<and>
   update_order example_ops ''o1''
      (JObj [(''items'', JList [JObj [(''productId'', JStr ''p1''), (''qty'', JInt 1)],
                                JObj [(''productId'', JStr ''p1''), (''qty'', JInt 0)]])])
      example_db = (example_db, Inr (bad_request ''qty must be a positive integer'')) \<and>
   create_order example_ops example_env
      (JObj [(''customer'', JStr ''Omar''),
             (''items'', JList [JObj [(''productId'', JStr ''p1''), (''qty'', JInt 1)],
                                JObj [(''productId'', JStr ''p1''), (''qty'', JInt 0)]])])
      example_db = (example_db, Inr (bad_request ''qty must be a positive integer''))"
proof -
  let ?its = "[JObj [(''productId'', JStr ''p1''), (''qty'', JInt 1)],
               JObj [(''productId'', JStr ''p1''), (''qty'', JInt 0)]] :: int json list"
  let ?data = "[(''products'', JList [example_product]), (''orders'', JList [example_order])]"
  have s: "strip example_ops [] = []"
    by (simp add: example_ops_def strip_blanks_def)
  have l: "load_db example_db = (example_db, Inr ?data)"
    by (simp add: example_db_def load_db_Parsed repair_def)
  have sp: "seq ?data ''products'' = [example_product]" and so: "seq ?data ''orders'' = [example_order]"
    by (simp_all add: seq_def)
  have i: "index_by_id example_ops (seq ?data ''orders'') ''o1'' \<noteq> None"
    unfolding so
    by (simp add: index_by_id_def example_order_def has_key_def get_def get_default_def
        str_of_def)
  have ip: "index_by_id example_ops [example_product] ''p1'' = Some 0"
    by (simp add: index_by_id_def example_product_def has_key_def get_def get_default_def
        str_of_def)
  have st: "strip example_ops ''p1'' = ''p1''"
    by (simp add: example_ops_def strip_blanks_def)
  have good: "spec_item_ok example_ops (index_by_id example_ops [example_product])
       (JObj [(''productId'', JStr ''p1''), (''qty'', JInt 1)])"
    by (simp add: spec_item_ok_def has_key_def get_def get_default_def str_of_def st ip)
  have b: "\<not> spec_item_ok example_ops (index_by_id example_ops [example_product])
       (JObj [(''productId'', JStr ''p1''), (''qty'', JInt 0)])"
    by (simp add: spec_item_ok_def has_key_def get_def get_default_def)
  then have bad: "\<exists>it \<in> set ?its. \<not> spec_item_ok example_ops
       (index_by_id example_ops (seq ?data ''products'')) it"
    by (simp add: sp)
  have gu: "get (get_body (JObj [(''items'', JList ?its)])) ''items'' = JList ?its"
    by (simp add: get_body_def get_def get_default_def)
  from items_all_or_nothing[OF s, of example_env "JObj [(''items'', JList ?its)]" example_db "''o1''",
      THEN conjunct2, THEN conjunct2, THEN conjunct1, rule_format, of example_db ?data ?its]
    l gu bad i
  have u: "\<exists>msg. update_order example_ops ''o1'' (JObj [(''items'', JList ?its)]) example_db
      = (example_db, Inr (bad_request msg))"
    by simp
  have u': "update_order example_ops ''o1'' (JObj [(''items'', JList ?its)]) example_db
      = (example_db, Inr (bad_request ''qty must be a positive integer''))"
    by (simp add: update_order_def load_db_Parsed repair_def seq_def index_by_id_def
        get_body_def has_key_def get_def get_default_def set_field_def str_of_def
        Let_def example_db_def example_order_def example_product_def example_ops_def
        strip_blanks_def)
  have c': "create_order example_ops example_env
      (JObj [(''customer'', JStr ''Omar''), (''items'', JList ?its)]) example_db
      = (example_db, Inr (bad_request ''qty must be a positive integer''))"
    by (simp add: create_order_def load_db_Parsed repair_def seq_def index_by_id_def
        get_body_def has_key_def get_def get_default_def str_of_def
        Let_def example_db_def example_order_def example_product_def example_ops_def
        strip_blanks_def)
  from s good b u u' c' show ?thesis by (intro conjI)
qed

end
